theory Spec2Isabelle
  imports Complex_Main "HOL-Library.AList"
begin

section \<open>Library model: Python strings and \<open>datetime\<close>\<close>

text \<open>
  The handlers of \<open>app.py\<close> call \<open>str.lower\<close>, \<open>datetime.now\<close>,
  \<open>datetime.strptime\<close>, datetime comparison and subtraction, and
  \<open>timedelta\<close>. These are library code, modelled here as far as the handlers use
  them.

  A Python string is a sequence of code points; an Isabelle \<open>char\<close> has 256 values,
  and a \<open>string\<close> stands here for the Python string of the code points below 256 with
  these numbers (strings with higher code points are outside the type). On these code
  points \<open>str.lower\<close> works character by character: it adds 32 to \<open>A\<close>..\<open>Z\<close>
  (65..90) and to the upper-case letters U+00C0..U+00DE (192..222) but U+00D7 (215, the
  multiplication sign), and leaves the others as they are.
\<close>

definition lower_char :: "char \<Rightarrow> char" where
  "lower_char c =
     (if (65 \<le> (of_char c :: nat) \<and> (of_char c :: nat) \<le> 90)
         \<or> (192 \<le> (of_char c :: nat) \<and> (of_char c :: nat) \<le> 222
            \<and> (of_char c :: nat) \<noteq> 215)
      then char_of ((of_char c :: nat) + 32) else c)"

definition lower :: "string \<Rightarrow> string" where
  "lower s = map lower_char s"

text \<open>
  A naive \<open>datetime\<close> object holds its calendar fields. The constructor of the
  library only builds valid dates (year 1..9999, month 1..12, ...); the record does not
  enforce it, and no theorem below depends on it.
\<close>

record datetime =
  year :: int
  month :: int
  day :: int
  hour :: int
  minute :: int
  second :: int
  microsecond :: int

text \<open>
  Comparison of two naive datetimes is the comparison of the tuples
  \<open>(year, month, day, hour, minute, second, microsecond)\<close>, which Python orders
  lexicographically.
\<close>

definition dt_tuple :: "datetime \<Rightarrow> int list" where
  "dt_tuple d = [year d, month d, day d, hour d, minute d, second d, microsecond d]"

fun tuple_lt :: "int list \<Rightarrow> int list \<Rightarrow> bool" where
  "tuple_lt [] [] = False"
| "tuple_lt [] (y # ys) = True"
| "tuple_lt (x # xs) [] = False"
| "tuple_lt (x # xs) (y # ys) = (x < y \<or> (x = y \<and> tuple_lt xs ys))"

definition dt_lt :: "datetime \<Rightarrow> datetime \<Rightarrow> bool" where
  "dt_lt a b = tuple_lt (dt_tuple a) (dt_tuple b)"

text \<open>
  \<open>datetime(y, m, d, hh, mm, ss)\<close>, which is also what \<open>strptime\<close> with the
  format \<open>%Y-%m-%d %H:%M:%S\<close> returns for a well-formed string.
\<close>

definition datetime_of :: "int \<Rightarrow> int \<Rightarrow> int \<Rightarrow> int \<Rightarrow> int \<Rightarrow> int \<Rightarrow> datetime" where
  "datetime_of y m d hh mm ss =
     \<lparr> year = y, month = m, day = d, hour = hh, minute = mm, second = ss, microsecond = 0 \<rparr>"

text \<open>
  The proleptic Gregorian ordinal of a date (\<open>_ymd2ord\<close>, day 1 is 0001-01-01) and its
  inverse (\<open>_ord2ymd\<close>), as the pure-Python \<open>datetime\<close> module computes them.
\<close>

definition is_leap :: "int \<Rightarrow> bool" where
  "is_leap y = (y mod 4 = 0 \<and> (y mod 100 \<noteq> 0 \<or> y mod 400 = 0))"

definition DAYS_IN_MONTH :: "int list" where
  "DAYS_IN_MONTH = [-1, 31, 28, 31, 30, 31, 30, 31, 31, 30, 31, 30, 31]"

definition DAYS_BEFORE_MONTH :: "int list" where
  "DAYS_BEFORE_MONTH = [-1, 0, 31, 59, 90, 120, 151, 181, 212, 243, 273, 304, 334]"

definition days_before_year :: "int \<Rightarrow> int" where
  "days_before_year y =
     (y - 1) * 365 + (y - 1) div 4 - (y - 1) div 100 + (y - 1) div 400"

definition days_before_month :: "int \<Rightarrow> int \<Rightarrow> int" where
  "days_before_month y m =
     DAYS_BEFORE_MONTH ! nat m + (if 2 < m \<and> is_leap y then 1 else 0)"

definition ymd2ord :: "int \<Rightarrow> int \<Rightarrow> int \<Rightarrow> int" where
  "ymd2ord y m d = days_before_year y + days_before_month y m + d"

definition ord2ymd :: "int \<Rightarrow> int \<times> int \<times> int" where
  "ord2ymd n0 =
     (let n = n0 - 1;
          n400 = n div 146097; n = n mod 146097;
          n100 = n div 36524; n = n mod 36524;
          n4 = n div 1461; n = n mod 1461;
          n1 = n div 365; n = n mod 365;
          y = n400 * 400 + 1 + n100 * 100 + n4 * 4 + n1
      in if n1 = 4 \<or> n100 = 4 then (y - 1, 12, 31)
         else
           let leapyear = (n1 = 3 \<and> (n4 \<noteq> 24 \<or> n100 = 3));
               m = (n + 50) div 32;
               preceding = DAYS_BEFORE_MONTH ! nat m + (if 2 < m \<and> leapyear then 1 else 0)
           in if n < preceding
              then (y, m - 1,
                    n - (preceding - (DAYS_IN_MONTH ! nat (m - 1)
                                      + (if m - 1 = 2 \<and> leapyear then 1 else 0))) + 1)
              else (y, m, n - preceding + 1))"

text \<open>
  A \<open>timedelta\<close> is normalised by the library to days, seconds and microseconds; the
  model keeps the one number they stand for, the signed count of microseconds.
\<close>

type_synonym timedelta = int

definition timedelta_minutes :: "int \<Rightarrow> timedelta" where
  "timedelta_minutes m = m * 60 * 1000000"

definition total_seconds :: "timedelta \<Rightarrow> real" where
  "total_seconds td = real_of_int td / 1000000"

definition dt_micros :: "datetime \<Rightarrow> int" where
  "dt_micros d =
     ((ymd2ord (year d) (month d) (day d) * 86400
        + hour d * 3600 + minute d * 60 + second d) * 1000000) + microsecond d"

text \<open>\<open>a - b\<close> on two datetimes.\<close>

definition dt_diff :: "datetime \<Rightarrow> datetime \<Rightarrow> timedelta" where
  "dt_diff a b = dt_micros a - dt_micros b"

text \<open>
  \<open>d - td\<close> on a datetime and a timedelta: \<open>None\<close> is the library's
  \<open>OverflowError\<close> when the result leaves the years 1..9999.
\<close>

definition dt_minus :: "datetime \<Rightarrow> timedelta \<Rightarrow> datetime option" where
  "dt_minus d td =
     (let total = dt_micros d - td;
          days = total div 86400000000;
          rest = total mod 86400000000;
          secs = rest div 1000000
      in if 0 < days \<and> days \<le> 3652059
         then (case ord2ymd days of (y, m, dd) \<Rightarrow>
                 Some \<lparr> year = y, month = m, day = dd,
                        hour = secs div 3600, minute = (secs mod 3600) div 60,
                        second = (secs mod 3600) mod 60,
                        microsecond = rest mod 1000000 \<rparr>)
         else None)"

section \<open>Library model: Python numbers\<close>

text \<open>
  The capacity of a room is the value of the key \<open>capacity\<close> of the JSON body, stored
  as it arrives. Python's JSON reader returns an \<open>int\<close> (unbounded) for an integer
  literal and a \<open>float\<close> for the other numbers, among them the literal \<open>NaN\<close>. The
  model has the integers and the float NaN. Finite floats (their sums are rounded) and
  the infinities are outside the type, and so are the JSON values that are no numbers;
  what is proved below about capacities is stated for integer capacities.

  \<open>a + b\<close> and \<open>a - b\<close> with one float operand convert the \<open>int\<close> operand to
  a float first, which raises \<open>OverflowError\<close> for an \<open>int\<close> that rounds to
  \<open>2 ^ 1024\<close> or beyond (\<open>None\<close> below); with NaN the result is NaN. Every
  comparison with NaN is \<open>False\<close>, and raises nothing.
\<close>

datatype number = Integer int | NaN

definition float_overflow :: "int \<Rightarrow> bool" where
  "float_overflow a = (2 ^ 1024 - 2 ^ 970 \<le> \<bar>a\<bar>)"

fun num_add :: "number \<Rightarrow> number \<Rightarrow> number option" where
  "num_add (Integer a) (Integer b) = Some (Integer (a + b))"
| "num_add (Integer a) NaN = (if float_overflow a then None else Some NaN)"
| "num_add NaN (Integer b) = (if float_overflow b then None else Some NaN)"
| "num_add NaN NaN = Some NaN"

fun num_sub :: "number \<Rightarrow> number \<Rightarrow> number option" where
  "num_sub (Integer a) (Integer b) = Some (Integer (a - b))"
| "num_sub (Integer a) NaN = (if float_overflow a then None else Some NaN)"
| "num_sub NaN (Integer b) = (if float_overflow b then None else Some NaN)"
| "num_sub NaN NaN = Some NaN"

fun num_lt :: "number \<Rightarrow> number \<Rightarrow> bool" where
  "num_lt (Integer a) (Integer b) = (a < b)"
| "num_lt (Integer a) NaN = False"
| "num_lt NaN b = False"

fun num_le :: "number \<Rightarrow> number \<Rightarrow> bool" where
  "num_le (Integer a) (Integer b) = (a \<le> b)"
| "num_le (Integer a) NaN = False"
| "num_le NaN b = False"

text \<open>
  \<open>sum(cs)\<close>, and the loop \<open>used = 0; for c in cs: used += c\<close>: the numbers are
  added to 0 from left to right; \<open>None\<close> is the \<open>OverflowError\<close> of an addition.
\<close>

definition sum_numbers :: "number list \<Rightarrow> number option" where
  "sum_numbers cs =
     fold (\<lambda>c used. case used of None \<Rightarrow> None | Some u \<Rightarrow> num_add u c) cs
          (Some (Integer 0))"

section \<open>Entities (\<open>service/*.py\<close>)\<close>

text \<open>
  Every entity of the source is a Python dict with fixed keys, modelled as a record. A
  dict keyed by number or name is an association list in insertion order
  (\<open>map_of\<close> reads a key, \<open>AList.update\<close> stores one, in place or at the end,
  \<open>AList.delete\<close> removes one), since \<open>add_floor\<close> reads the last key.
\<close>

record room =
  room_number :: int
  capacity :: number
  floor_number :: int
  currently_available :: "bool option"

record floor =
  floor_number :: int
  capacity :: int
  rooms :: "(int \<times> room) list"

record user =
  name :: string
  organization :: string
  emp_id :: string
  email :: string
  role :: string
  permissions :: string

text \<open>
  An organization is a dict with string keys whose values are strings, a dict of users by
  email, or (after \<open>get_org\<close> has overwritten \<open>users\<close>) a list of users.
\<close>

datatype orgval = OStr string | OUsers "(string \<times> user) list" | OUserList "user list"

type_synonym org = "(string \<times> orgval) list"

record booking =
  booking_id :: string
  floor_number :: int
  room_number :: int
  organization :: string
  booked_by :: "(string \<times> string) list"
  start_time :: datetime
  end_time :: datetime

definition define_floor :: "int \<Rightarrow> floor" where
  "define_floor n = \<lparr> floor.floor_number = n, floor.capacity = 100, floor.rooms = [] \<rparr>"

definition define_room :: "int \<Rightarrow> number \<Rightarrow> int \<Rightarrow> room" where
  "define_room rn cap fn =
     \<lparr> room.room_number = rn, room.capacity = cap, room.floor_number = fn,
       room.currently_available = None \<rparr>"

text \<open>
  \<open>define_organization\<close>: the dict display has no comma between \<open>"limit"\<close> and
  \<open>"users"\<close>, so Python concatenates the two literals into the one key
  \<open>"limitusers"\<close>.
\<close>

definition define_organization :: "string \<Rightarrow> string \<Rightarrow> org" where
  "define_organization on oe =
     [(''org_name'', OStr on), (''org_email'', OStr oe), (''limit'' @ ''users'', OUsers [])]"

definition define_user ::
  "string \<Rightarrow> string \<Rightarrow> string \<Rightarrow> string \<Rightarrow> string \<Rightarrow> string \<Rightarrow> user" where
  "define_user n org e em r p =
     \<lparr> user.name = n, user.organization = org, user.emp_id = e, user.email = em,
       user.role = r, user.permissions = p \<rparr>"

text \<open>\<open>define_booking\<close>; the result of \<open>str(uuid4())\<close> is an input of the model.\<close>

definition define_booking ::
  "string \<Rightarrow> int \<Rightarrow> int \<Rightarrow> string \<Rightarrow> (string \<times> string) list \<Rightarrow> datetime \<Rightarrow> datetime \<Rightarrow> booking" where
  "define_booking uuid fn rn org bb st en =
     \<lparr> booking.booking_id = uuid, booking.floor_number = fn, booking.room_number = rn,
       booking.organization = org, booking.booked_by = bb, booking.start_time = st,
       booking.end_time = en \<rparr>"

definition is_emp_id_unique :: "string \<Rightarrow> user list \<Rightarrow> bool" where
  "is_emp_id_unique new_emp_id user_list = list_all (\<lambda>u. emp_id u \<noteq> new_emp_id) user_list"

definition is_email_unique :: "string \<Rightarrow> user list \<Rightarrow> bool" where
  "is_email_unique new_email user_list = list_all (\<lambda>u. email u \<noteq> new_email) user_list"

text \<open>
  \<open>calculate_available_capacity\<close>: the loop runs over the keys of \<open>rooms\<close>, reads
  each room back by its key and adds its capacity to \<open>used_capacity\<close>, which starts
  at 0; the result is the capacity of the floor minus that. \<open>None\<close> is an
  \<open>OverflowError\<close> of the arithmetic.
\<close>

definition calculate_available_capacity :: "floor \<Rightarrow> number option" where
  "calculate_available_capacity fl =
     (case sum_numbers
             (map (\<lambda>k. case map_of (rooms fl) k of
                          Some r \<Rightarrow> room.capacity r | None \<Rightarrow> Integer 0)
                  (map fst (rooms fl))) of
        None \<Rightarrow> None
      | Some used_capacity \<Rightarrow> num_sub (Integer (floor.capacity fl)) used_capacity)"



text \<open>
  \<open>is_room_available\<close>: the list comprehension keeps the bookings of the floor and
  room; the loop returns \<open>False\<close> at the first one that overlaps.
\<close>

fun overlaps_any :: "datetime \<Rightarrow> datetime \<Rightarrow> booking list \<Rightarrow> bool" where
  "overlaps_any s e [] = False"
| "overlaps_any s e (b # bs) =
     (if dt_lt s (end_time b) \<and> dt_lt (start_time b) e then True else overlaps_any s e bs)"

definition is_room_available ::
  "(string \<times> booking) list \<Rightarrow> int \<Rightarrow> int \<Rightarrow> datetime \<Rightarrow> datetime \<Rightarrow> bool" where
  "is_room_available all_bookings fn rn s e =
     (let floor_bookings =
            filter (\<lambda>b. booking.floor_number b = fn \<and> booking.room_number b = rn)
                   (map snd all_bookings)
      in if overlaps_any s e floor_bookings then False else True)"

text \<open>
  \<open>list_bookings_for_organization\<close>: the stored name is lowered, the name asked for
  is compared as it was passed.
\<close>

definition list_bookings_for_organization ::
  "(string \<times> booking) list \<Rightarrow> string \<Rightarrow> booking list" where
  "list_bookings_for_organization all_bookings organization_name =
     map snd (filter (\<lambda>(bid, b). lower (booking.organization b) = organization_name) all_bookings)"

section \<open>The store and the handlers (\<open>app.py\<close>)\<close>

text \<open>
  The module-level dicts that the handlers read or write. (\<open>all_rooms\<close> and
  \<open>all_users\<close> are declared by the source and never used.) The tracker holds Python
  floats; every value the handlers add is \<open>total_seconds() / 3600\<close> of a difference of
  two datetimes, modelled exactly as a real number.
\<close>

record store =
  all_floors :: "(int \<times> floor) list"
  all_bookings :: "(string \<times> booking) list"
  all_orgs :: "(string \<times> org) list"
  organization_booking_hours :: "(string \<times> real) list"

definition empty_store :: store where
  "empty_store =
     \<lparr> all_floors = [], all_bookings = [], all_orgs = [], organization_booking_hours = [] \<rparr>"

text \<open>
  An exception a handler can raise, and the answers of the handlers: one constructor for
  each \<open>return jsonify(...)\<close> of \<open>app.py\<close>. \<open>Exception e\<close> is the generic
  \<open>except Exception as e\<close> branch (status 400 with \<open>str(e)\<close>); \<open>Uncaught e\<close> is
  an exception raised outside every \<open>try\<close> (\<open>get_org\<close>). The branches
  \<open>except KeyError\<close> around the \<open>define_...\<close> calls cannot be taken (a missing
  keyword argument is a \<open>TypeError\<close>) and have no constructor.
\<close>

datatype exn = KeyError string | TypeError | ValueError | AttributeError | OverflowError

datatype response =
    FloorAdded
  | FloorNotAddedYet int
  | RoomExists int
  | CapacityAvailable int number
  | RoomAdded
  | RoomsData "(int \<times> room) list"
  | SearchData "(int \<times> int \<times> number) list"
  | OrgExists
  | OrgAdded
  | OrgData org
  | OrgNotAdded string
  | EmailExists
  | EmpIdExists
  | UserAdded
  | HourlySlotsOnly
  | FloorNotAdded int
  | RoomNotAdded int
  | NoSuchUser
  | MonthlyLimit
  | AlreadyBooked
  | Booked booking
  | BookingsData "booking list"
  | Cancelled
  | TooLate
  | BookingNotFound
  | Exception exn
  | Uncaught exn

text \<open>
  The JSON body of a request is a dict; a key the handler reads may be absent
  (\<open>None\<close>). Floor and room numbers are integers and names are strings; the capacity
  of a room is a number as above. Bodies with keys the handler does not know (a
  \<open>TypeError\<close> of the \<open>**data\<close> call) and values of another JSON type are outside
  the model. A time argument is absent, refused by \<open>strptime\<close>, or parsed (with
  microsecond 0).
\<close>

datatype timearg = Absent | Malformed | Parsed datetime

record room_data =
  floor_number :: "int option"
  room_number :: "int option"
  capacity :: "number option"

record org_data =
  org_name :: "string option"
  org_email :: "string option"

record user_data =
  name :: "string option"
  organization :: "string option"
  emp_id :: "string option"
  email :: "string option"
  role :: "string option"
  permissions :: "string option"

record booking_data =
  floor_number :: "int option"
  room_number :: "int option"
  organization :: "string option"
  booked_by :: "(string \<times> string) list option"
  start_time :: timearg
  end_time :: timearg

subsection \<open>Floors and rooms\<close>

definition add_floor :: "store \<Rightarrow> response \<times> store" where
  "add_floor s =
     (let floor_number = (if length (all_floors s) = 0 then 0
                          else fst (last (all_floors s)) + 1);
          new_floor = define_floor floor_number
      in (FloorAdded, s\<lparr>all_floors := AList.update floor_number new_floor (all_floors s)\<rparr>))"

definition add_room :: "room_data \<Rightarrow> store \<Rightarrow> response \<times> store" where
  "add_room data s =
     (case room_data.floor_number data of
        None \<Rightarrow> (Exception (KeyError ''floor_number''), s)
      | Some fnum \<Rightarrow>
     (case map_of (all_floors s) fnum of
        None \<Rightarrow> (FloorNotAddedYet fnum, s)
      | Some curr_floor \<Rightarrow>
     (case room_data.room_number data of
        None \<Rightarrow> (Exception (KeyError ''room_number''), s)
      | Some rnum \<Rightarrow>
     (case calculate_available_capacity curr_floor of
        None \<Rightarrow> (Exception OverflowError, s)
      | Some available_capacity \<Rightarrow>
      if rnum \<in> set (map fst (rooms curr_floor))
      then (RoomExists rnum, s)
      else
     (case room_data.capacity data of
        None \<Rightarrow> (Exception (KeyError ''capacity''), s)
      | Some cap \<Rightarrow>
      if num_lt available_capacity cap
      then (CapacityAvailable fnum available_capacity, s)
      else
        (let new_room = define_room rnum cap fnum;
             new_floor = curr_floor\<lparr>rooms := AList.update rnum new_room (rooms curr_floor)\<rparr>
         in (RoomAdded,
             s\<lparr>all_floors := AList.update fnum new_floor (all_floors s)\<rparr>)))))))"

text \<open>
  \<open>get_rooms\<close> calls \<open>list_rooms_with_availability\<close> with no time slot: start and
  end are both the current time. The function writes \<open>currently_available\<close> into every
  stored room.
\<close>

definition list_rooms_with_availability ::
  "(int \<times> floor) list \<Rightarrow> (string \<times> booking) list \<Rightarrow> datetime \<Rightarrow> datetime
     \<Rightarrow> (int \<times> room) list \<times> (int \<times> floor) list" where
  "list_rooms_with_availability floors bookings st en =
     (let floors' =
            map (\<lambda>(floor_number, floor_info).
                   (floor_number,
                    floor_info\<lparr>rooms :=
                      map (\<lambda>(room_number, room_info).
                             (room_number,
                              room_info\<lparr>currently_available :=
                                Some (is_room_available bookings floor_number room_number st en)\<rparr>))
                          (rooms floor_info)\<rparr>))
                floors
      in (concat (map (\<lambda>(floor_number, floor_info).
                         map (\<lambda>(room_number, room_info). (floor_number, room_info))
                             (rooms floor_info))
                      floors'),
          floors'))"

definition get_rooms :: "datetime \<Rightarrow> store \<Rightarrow> response \<times> store" where
  "get_rooms now s =
     (case list_rooms_with_availability (all_floors s) (all_bookings s) now now of
        (rs, floors') \<Rightarrow> (RoomsData rs, s\<lparr>all_floors := floors'\<rparr>))"

text \<open>
  \<open>search_rooms\<close>: the loop variable \<open>floor_number\<close> of
  \<open>for floor_number, floor_info in all_floors.items()\<close> rebinds the name of the query
  parameter, so the test \<open>floor_number == floor_number or floor_number is None\<close>
  compares the key of the floor with itself. The bound variable below shadows the
  parameter in the same way. The capacity asked for is an \<open>int\<close> (or absent), read
  with \<open>type=int\<close>. An item of the result is (floor, room, capacity).
\<close>

definition search_rooms ::
  "int option \<Rightarrow> int option \<Rightarrow> timearg \<Rightarrow> timearg \<Rightarrow> store \<Rightarrow> response" where
  "search_rooms = (\<lambda>floor_number capacity start_time_str end_time_str s.
     (case start_time_str of
        Absent \<Rightarrow> Exception TypeError
      | Malformed \<Rightarrow> Exception ValueError
      | Parsed st \<Rightarrow>
     (case end_time_str of
        Absent \<Rightarrow> Exception TypeError
      | Malformed \<Rightarrow> Exception ValueError
      | Parsed en \<Rightarrow>
        SearchData
          (concat (map (\<lambda>(floor_number, floor_info).
             concat (map (\<lambda>(room_number, room_info).
               if floor_number = floor_number \<or> Some floor_number = None
               then (if capacity = None
                        \<or> num_le (Integer (the capacity)) (room.capacity room_info)
                     then (if is_room_available (all_bookings s) floor_number room_number
                                st en
                           then [(floor_number, room_number, room.capacity room_info)]
                           else [])
                     else [])
               else [])
              (rooms floor_info)))
            (all_floors s))))))"

subsection \<open>Organizations and users\<close>

definition add_org :: "org_data \<Rightarrow> store \<Rightarrow> response \<times> store" where
  "add_org data s =
     (case org_name data of
        None \<Rightarrow> (Exception (KeyError ''org_name''), s)
      | Some n \<Rightarrow>
        if lower n \<in> set (map fst (all_orgs s)) then (OrgExists, s)
        else
          (case org_email data of
             None \<Rightarrow> (Exception TypeError, s)
           | Some e \<Rightarrow>
               (OrgAdded,
                s\<lparr>all_orgs := AList.update (lower n) (define_organization (lower n) e)
                                (all_orgs s)\<rparr>)))"

text \<open>
  \<open>get_org\<close> reads \<open>org["users"]\<close> outside its \<open>try\<close> and stores the list of
  the users under that key.
\<close>

definition get_org :: "string \<Rightarrow> store \<Rightarrow> response \<times> store" where
  "get_org oname s =
     (case map_of (all_orgs s) (lower oname) of
        None \<Rightarrow> (Uncaught (KeyError (lower oname)), s)
      | Some org \<Rightarrow>
          (case map_of org ''users'' of
             None \<Rightarrow> (Uncaught (KeyError ''users''), s)
           | Some (OUsers d) \<Rightarrow>
               (let org' = AList.update ''users'' (OUserList (map snd d)) org
                in (OrgData org', s\<lparr>all_orgs := AList.update (lower oname) org' (all_orgs s)\<rparr>))
           | Some (OUserList l) \<Rightarrow> (Uncaught AttributeError, s)
           | Some (OStr v) \<Rightarrow> (Uncaught AttributeError, s)))"

text \<open>
  \<open>add_user\<close>. The uniqueness tests iterate over \<open>all_orgs[organization]["users"]\<close>
  and index each element by \<open>"email"\<close>: on a dict the elements are its keys, strings,
  and the first one raises \<open>TypeError\<close>; the same on a string. On a list the tests
  work, and the final item assignment by email raises \<open>TypeError\<close>.
\<close>

definition add_user :: "user_data \<Rightarrow> store \<Rightarrow> response \<times> store" where
  "add_user data s =
     (case user_data.email data of
        None \<Rightarrow> (Exception (KeyError ''email''), s)
      | Some email0 \<Rightarrow>
     (case user_data.emp_id data of
        None \<Rightarrow> (Exception (KeyError ''emp_id''), s)
      | Some emp_id0 \<Rightarrow>
     (case user_data.organization data of
        None \<Rightarrow> (Exception (KeyError ''organization''), s)
      | Some orgn \<Rightarrow>
     (case map_of (all_orgs s) orgn of
        None \<Rightarrow> (OrgNotAdded orgn, s)
      | Some org \<Rightarrow>
     (case map_of org ''users'' of
        None \<Rightarrow> (Exception (KeyError ''users''), s)
      | Some (OStr v) \<Rightarrow> (Exception TypeError, s)
      | Some (OUserList l) \<Rightarrow>
          if is_email_unique (lower email0) l = False then (EmailExists, s)
          else if is_emp_id_unique (lower emp_id0) l = False then (EmpIdExists, s)
          else (Exception TypeError, s)
      | Some (OUsers d) \<Rightarrow>
          if d \<noteq> [] then (Exception TypeError, s)
          else
            (case (user_data.name data, user_data.role data, user_data.permissions data) of
               (Some n, Some r, Some p) \<Rightarrow>
                 (let new_user = define_user n orgn (lower emp_id0) (lower email0) r p;
                      org' = AList.update ''users'' (OUsers (AList.update (lower email0) new_user d)) org
                  in (UserAdded, s\<lparr>all_orgs := AList.update orgn org' (all_orgs s)\<rparr>))
             | _ \<Rightarrow> (Exception TypeError, s)))))))"

subsection \<open>Bookings\<close>

definition reset_monthly_booking_hours ::
  "datetime \<Rightarrow> (string \<times> real) list \<Rightarrow> (string \<times> real) list" where
  "reset_monthly_booking_hours current_date hours =
     (if day current_date = 1 then [] else hours)"

text \<open>
  \<open>add_boooking\<close>. The tracker is reset first, and the reset is kept whatever
  follows. \<open>uuid\<close> is what \<open>str(uuid4())\<close> returns in \<open>define_booking\<close>. The
  stored booking keeps \<open>data["organization"]\<close> as it was sent; the lowered name is
  used for the lookups and the tracker only.
\<close>

definition add_boooking ::
  "datetime \<Rightarrow> string \<Rightarrow> booking_data \<Rightarrow> store \<Rightarrow> response \<times> store" where
  "add_boooking now uuid data s0 =
     (let s = s0\<lparr>organization_booking_hours :=
                   reset_monthly_booking_hours now (organization_booking_hours s0)\<rparr> in
      case booking_data.start_time data of
        Absent \<Rightarrow> (Exception (KeyError ''start_time''), s)
      | Malformed \<Rightarrow> (Exception ValueError, s)
      | Parsed st \<Rightarrow>
     (case booking_data.end_time data of
        Absent \<Rightarrow> (Exception (KeyError ''end_time''), s)
      | Malformed \<Rightarrow> (Exception ValueError, s)
      | Parsed en \<Rightarrow>
     (case booking_data.organization data of
        None \<Rightarrow> (Exception (KeyError ''organization''), s)
      | Some org0 \<Rightarrow>
      if minute st \<noteq> 0 \<or> second st \<noteq> 0 \<or> minute en \<noteq> 0 \<or> second en \<noteq> 0
      then (HourlySlotsOnly, s)
      else
     (case booking_data.floor_number data of
        None \<Rightarrow> (Exception (KeyError ''floor_number''), s)
      | Some fnum \<Rightarrow>
     (case map_of (all_floors s) fnum of
        None \<Rightarrow> (FloorNotAdded fnum, s)
      | Some fl \<Rightarrow>
     (case booking_data.room_number data of
        None \<Rightarrow> (Exception (KeyError ''room_number''), s)
      | Some rnum \<Rightarrow>
      if rnum \<notin> set (map fst (rooms fl)) then (RoomNotAdded rnum, s)
      else
     (case booking_data.booked_by data of
        None \<Rightarrow> (Exception (KeyError ''booked_by''), s)
      | Some bb \<Rightarrow>
     (case map_of bb ''email'' of
        None \<Rightarrow> (Exception (KeyError ''email''), s)
      | Some em \<Rightarrow>
     (case map_of (all_orgs s) (lower org0) of
        None \<Rightarrow> (Exception (KeyError (lower org0)), s)
      | Some org \<Rightarrow>
     (case map_of org ''users'' of
        None \<Rightarrow> (Exception (KeyError ''users''), s)
      | Some (OStr v) \<Rightarrow> (Exception AttributeError, s)
      | Some (OUserList l) \<Rightarrow> (Exception AttributeError, s)
      | Some (OUsers d) \<Rightarrow>
      if em \<notin> set (map fst d) then (NoSuchUser, s)
      else
        (let booking_duration = total_seconds (dt_diff en st) / 3600;
             hours = organization_booking_hours s;
             hours' = (case map_of hours (lower org0) of
                         Some h \<Rightarrow> AList.update (lower org0) (h + booking_duration) hours
                       | None \<Rightarrow> AList.update (lower org0) booking_duration hours);
             s' = s\<lparr>organization_booking_hours := hours'\<rparr>
         in if 30 < the (map_of hours' (lower org0)) then (MonthlyLimit, s')
            else if is_room_available (all_bookings s') fnum rnum st en = False
            then (AlreadyBooked, s')
            else
              (let new_booking = define_booking uuid fnum rnum org0 bb st en
               in (Booked new_booking,
                   s'\<lparr>all_bookings :=
                        AList.update (booking_id new_booking) new_booking (all_bookings s')\<rparr>)))))))))))))"

definition get_bookings :: "string \<Rightarrow> store \<Rightarrow> response" where
  "get_bookings oname s = BookingsData (list_bookings_for_organization (all_bookings s) oname)"

text \<open>\<open>del_booking\<close>; the \<open>org_name\<close> of the path is not used.\<close>

definition del_booking :: "datetime \<Rightarrow> string \<Rightarrow> store \<Rightarrow> response \<times> store" where
  "del_booking current_time bid s =
     (case map_of (all_bookings s) bid of
        None \<Rightarrow> (BookingNotFound, s)
      | Some b \<Rightarrow>
          (case dt_minus (booking.start_time b) (timedelta_minutes 15) of
             None \<Rightarrow> (Exception OverflowError, s)
           | Some t \<Rightarrow>
               if dt_lt current_time t
               then (Cancelled, s\<lparr>all_bookings := AList.delete bid (all_bookings s)\<rparr>)
               else (TooLate, s)))"

subsection \<open>The public operations as a transition system\<close>

text \<open>
  One constructor for each route that can write the store, and for the two modelled
  queries. The remaining \<open>GET\<close> routes (\<open>get_floors\<close>, \<open>get_floor\<close>,
  \<open>get_orgs\<close>, \<open>get_users\<close>, \<open>get_user\<close>, \<open>get_booking\<close>) only read it. The
  clock reading of a step is \<open>datetime.now()\<close> at that request.
\<close>

datatype request =
    AddFloor
  | AddRoom room_data
  | GetRooms
  | SearchRooms "int option" "int option" timearg timearg
  | AddOrg org_data
  | GetOrg string
  | AddUser user_data
  | AddBooking string booking_data
  | GetBookings string
  | DelBooking string

fun step :: "datetime \<Rightarrow> request \<Rightarrow> store \<Rightarrow> response \<times> store" where
  "step now AddFloor s = add_floor s"
| "step now (AddRoom data) s = add_room data s"
| "step now GetRooms s = get_rooms now s"
| "step now (SearchRooms f c st en) s = (search_rooms f c st en s, s)"
| "step now (AddOrg data) s = add_org data s"
| "step now (GetOrg n) s = get_org n s"
| "step now (AddUser data) s = add_user data s"
| "step now (AddBooking uuid data) s = add_boooking now uuid data s"
| "step now (GetBookings n) s = (get_bookings n s, s)"
| "step now (DelBooking bid) s = del_booking now bid s"

inductive reachable :: "store \<Rightarrow> bool" where
  reachable_init: "reachable empty_store"
| reachable_step: "reachable s \<Longrightarrow> reachable (snd (step now rq s))"

text \<open>
  The stores reached by requests whose room capacities, where a request has one, are
  integers.
\<close>

definition integer_capacity :: "request \<Rightarrow> bool" where
  "integer_capacity rq =
     (case rq of
        AddRoom data \<Rightarrow>
          (case room_data.capacity data of
             None \<Rightarrow> True | Some (Integer c) \<Rightarrow> True | Some NaN \<Rightarrow> False)
      | _ \<Rightarrow> True)"

inductive reachable_int :: "store \<Rightarrow> bool" where
  reachable_int_init: "reachable_int empty_store"
| reachable_int_step:
    "reachable_int s \<Longrightarrow> integer_capacity rq \<Longrightarrow> reachable_int (snd (step now rq s))"

section \<open>Invariants of the reachable stores\<close>


text \<open>
  An organization as \<open>define_organization\<close> builds it has no key \<open>users\<close>, and an
  empty dict under \<open>limitusers\<close>.
\<close>

definition org_without_users :: "org \<Rightarrow> bool" where
  "org_without_users org =
     (map_of org ''users'' = None \<and> map_of org ''limitusers'' = Some (OUsers []))"

definition store_invariant :: "store \<Rightarrow> bool" where
  "store_invariant s =
     (list_all org_without_users (map snd (all_orgs s))
      \<and> all_bookings s = [] \<and> organization_booking_hours s = [])"

section \<open>Example inputs\<close>

text \<open>
  The scenario of the specification, run through the handlers from the empty store: a
  floor, room 101 (capacity 20) on floor 0, the organization acme, then the user and the
  two bookings as requests. The clock reads 2024-02-20 12:00:00 throughout.
\<close>

definition scenario_now :: datetime where
  "scenario_now = datetime_of 2024 2 20 12 0 0"

definition scenario_room_data :: room_data where
  "scenario_room_data =
     \<lparr> room_data.floor_number = Some 0, room_data.room_number = Some 101,
       room_data.capacity = Some (Integer 20) \<rparr>"

definition scenario_org_data :: org_data where
  "scenario_org_data = \<lparr> org_name = Some ''acme'', org_email = Some ''a@x.com'' \<rparr>"

definition scenario_user_data :: user_data where
  "scenario_user_data =
     \<lparr> user_data.name = Some ''User One'', user_data.organization = Some ''acme'',
       user_data.emp_id = Some ''e1'', user_data.email = Some ''u1@acme.com'',
       user_data.role = Some ''member'', user_data.permissions = Some ''book'' \<rparr>"

definition scenario_booking_data :: booking_data where
  "scenario_booking_data =
     \<lparr> booking_data.floor_number = Some 0, booking_data.room_number = Some 101,
       booking_data.organization = Some ''acme'',
       booking_data.booked_by = Some [(''name'', ''User One''), (''email'', ''u1@acme.com'')],
       booking_data.start_time = Parsed (datetime_of 2024 3 1 9 0 0),
       booking_data.end_time = Parsed (datetime_of 2024 3 1 10 0 0) \<rparr>"

definition scenario_second_booking_data :: booking_data where
  "scenario_second_booking_data =
     scenario_booking_data
       \<lparr> booking_data.start_time := Parsed (datetime_of 2024 3 1 9 30 0),
         booking_data.end_time := Parsed (datetime_of 2024 3 1 10 30 0) \<rparr>"

definition store_with_floor :: store where
  "store_with_floor = snd (step scenario_now AddFloor empty_store)"

definition store_with_room :: store where
  "store_with_room = snd (step scenario_now (AddRoom scenario_room_data) store_with_floor)"

definition store_with_org :: store where
  "store_with_org = snd (step scenario_now (AddOrg scenario_org_data) store_with_room)"

text \<open>
  A store that no sequence of requests produces: the one of the scenario if the
  organization had a \<open>users\<close> dict holding the user (floor 0 is \<open>floor_zero\<close>
  there), and the same store with the first booking of the scenario stored under the id
  \<open>b1\<close>.
\<close>

definition floor_zero :: floor where
  "floor_zero =
     \<lparr> floor.floor_number = 0, floor.capacity = 100,
       floor.rooms = [(101, define_room 101 (Integer 20) 0)] \<rparr>"

definition acme_users :: "(string \<times> user) list" where
  "acme_users =
     [(''u1@acme.com'',
       define_user ''User One'' ''acme'' ''e1'' ''u1@acme.com'' ''member'' ''book'')]"

definition acme_org :: org where
  "acme_org =
     [(''org_name'', OStr ''acme''), (''org_email'', OStr ''a@x.com''),
      (''users'', OUsers acme_users)]"

definition store_with_user :: store where
  "store_with_user = store_with_room \<lparr> all_orgs := [(''acme'', acme_org)] \<rparr>"

text \<open>
  A booking request of the user (or of \<open>em\<close>) for the organization spelled
  \<open>Acme\<close>, on floor \<open>f\<close>, room \<open>r\<close>, from \<open>st\<close> to \<open>en\<close>.
\<close>

definition acme_request ::
  "int \<Rightarrow> int \<Rightarrow> string \<Rightarrow> datetime \<Rightarrow> datetime \<Rightarrow> booking_data" where
  "acme_request f r em st en =
     \<lparr> booking_data.floor_number = Some f, booking_data.room_number = Some r,
       booking_data.organization = Some ''Acme'',
       booking_data.booked_by = Some [(''email'', em)],
       booking_data.start_time = Parsed st, booking_data.end_time = Parsed en \<rparr>"

definition first_booking :: booking where
  "first_booking =
     define_booking ''b1'' 0 101 ''acme'' [(''name'', ''User One''), (''email'', ''u1@acme.com'')]
       (datetime_of 2024 3 1 9 0 0) (datetime_of 2024 3 1 10 0 0)"

definition store_with_booking :: store where
  "store_with_booking = store_with_user \<lparr> all_bookings := [(''b1'', first_booking)] \<rparr>"

text \<open>A request to add room \<open>r\<close> with capacity \<open>c\<close> to floor \<open>f\<close>.\<close>

definition room_request :: "int \<Rightarrow> int \<Rightarrow> number \<Rightarrow> room_data" where
  "room_request f r c =
     \<lparr> room_data.floor_number = Some f, room_data.room_number = Some r,
       room_data.capacity = Some c \<rparr>"

text \<open>The same store when acme has used 29 hours of the month.\<close>

definition store_with_hours :: store where
  "store_with_hours = store_with_booking \<lparr> organization_booking_hours := [(''acme'', 29)] \<rparr>"

text \<open>
  Two floors, room 101 (capacity 20) on floor 0 and room 201 (capacity 10) on floor 1,
  built by the handlers.
\<close>

definition store_two_floors :: store where
  "store_two_floors =
     snd (step scenario_now
            (AddRoom \<lparr> room_data.floor_number = Some 1, room_data.room_number = Some 201,
                       room_data.capacity = Some (Integer 10) \<rparr>)
            (snd (step scenario_now AddFloor store_with_room)))"




text \<open>A booking stored for the organization name \<open>Acme\<close>, as the request spelled it.\<close>

definition store_acme_capital :: store where
  "store_acme_capital =
     empty_store
       \<lparr> all_bookings :=
           [(''b1'', define_booking ''b1'' 0 101 ''Acme'' [(''email'', ''u1@acme.com'')]
                       (datetime_of 2024 3 1 9 0 0) (datetime_of 2024 3 1 10 0 0))] \<rparr>"

section \<open>Theorems\<close>

lemma tuple_lt_irrefl: "\<not> tuple_lt xs xs"
  by (induction xs) auto

lemma dt_lt_irrefl: "\<not> dt_lt d d"
  by (simp add: dt_lt_def tuple_lt_irrefl)

lemma overlaps_any_iff:
  "overlaps_any s e bs = (\<exists>b \<in> set bs. dt_lt s (booking.end_time b) \<and> dt_lt (booking.start_time b) e)"
  by (induction bs) auto

subsection \<open>Room availability\<close>

lemma is_room_available_conv:
  "is_room_available bks fn rn s e =
     (\<not> (\<exists>b \<in> set (map snd bks).
            booking.floor_number b = fn \<and> booking.room_number b = rn
            \<and> dt_lt (booking.start_time b) e \<and> dt_lt s (booking.end_time b)))"
  by (auto simp: is_room_available_def overlaps_any_iff)

text \<open>
  C3. \<open>is_room_available\<close> answers \<open>False\<close> exactly when some stored booking of
  the same floor and room has \<open>start < end'\<close> and \<open>end > start'\<close> for the asked
  slot \<open>start'\<close>, \<open>end'\<close>. A stored booking that ends exactly when the asked slot
  starts does not overlap it: when every stored booking of the room ends at the asked
  start, the answer is \<open>True\<close>.
\<close>

theorem is_room_available_iff_no_overlap:
  "((is_room_available bks fn rn s e = False) =
      (\<exists>b \<in> set (map snd bks).
         booking.floor_number b = fn \<and> booking.room_number b = rn
         \<and> dt_lt (booking.start_time b) e \<and> dt_lt s (booking.end_time b)))
   \<and> ((\<forall>b \<in> set (map snd bks).
          booking.floor_number b = fn \<and> booking.room_number b = rn
          \<longrightarrow> booking.end_time b = s)
        \<longrightarrow> is_room_available bks fn rn s e = True)"
proof (intro conjI impI)
  show "(is_room_available bks fn rn s e = False) =
      (\<exists>b \<in> set (map snd bks).
         booking.floor_number b = fn \<and> booking.room_number b = rn
         \<and> dt_lt (booking.start_time b) e \<and> dt_lt s (booking.end_time b))"
    using is_room_available_conv [of bks fn rn s e] by blast
next
  assume back_to_back:
    "\<forall>b \<in> set (map snd bks).
       booking.floor_number b = fn \<and> booking.room_number b = rn \<longrightarrow> booking.end_time b = s"
  have "\<not> (\<exists>b \<in> set (map snd bks).
            booking.floor_number b = fn \<and> booking.room_number b = rn
            \<and> dt_lt (booking.start_time b) e \<and> dt_lt s (booking.end_time b))"
  proof
    assume "\<exists>b \<in> set (map snd bks).
            booking.floor_number b = fn \<and> booking.room_number b = rn
            \<and> dt_lt (booking.start_time b) e \<and> dt_lt s (booking.end_time b)"
    then obtain b where b: "b \<in> set (map snd bks)"
        "booking.floor_number b = fn" "booking.room_number b = rn"
        "dt_lt s (booking.end_time b)"
      by blast
    from back_to_back b have "booking.end_time b = s" by blast
    with b(4) show False by (simp add: dt_lt_irrefl)
  qed
  then show "is_room_available bks fn rn s e = True"
    using is_room_available_conv [of bks fn rn s e] by blast
qed

text \<open>
  Room 101 of floor 0 is booked from 09:00 to 10:00 on 2024-03-01: the slot 10:00 to
  11:00 is free, the slot 09:30 to 10:30 is not.
\<close>

theorem is_room_available_iff_no_overlap_witness:
  "booking.end_time (define_booking ''b1'' 0 101 ''acme'' [] (datetime_of 2024 3 1 9 0 0)
       (datetime_of 2024 3 1 10 0 0)) = datetime_of 2024 3 1 10 0 0
   \<and> is_room_available
       [(''b1'', define_booking ''b1'' 0 101 ''acme'' [] (datetime_of 2024 3 1 9 0 0)
                   (datetime_of 2024 3 1 10 0 0))]
       0 101 (datetime_of 2024 3 1 10 0 0) (datetime_of 2024 3 1 11 0 0) = True
   \<and> is_room_available
       [(''b1'', define_booking ''b1'' 0 101 ''acme'' [] (datetime_of 2024 3 1 9 0 0)
                   (datetime_of 2024 3 1 10 0 0))]
       0 101 (datetime_of 2024 3 1 9 30 0) (datetime_of 2024 3 1 10 30 0) = False"
proof -
  let ?b = "define_booking ''b1'' 0 101 ''acme'' [] (datetime_of 2024 3 1 9 0 0)
              (datetime_of 2024 3 1 10 0 0)"
  have e: "booking.end_time ?b = datetime_of 2024 3 1 10 0 0"
    by (simp add: define_booking_def)
  have lt1: "dt_lt (booking.start_time ?b) (datetime_of 2024 3 1 10 30 0)"
    by (simp add: define_booking_def dt_lt_def dt_tuple_def datetime_of_def)
  have lt2: "dt_lt (datetime_of 2024 3 1 9 30 0) (booking.end_time ?b)"
    by (simp add: define_booking_def dt_lt_def dt_tuple_def datetime_of_def)
  have f: "booking.floor_number ?b = 0" "booking.room_number ?b = 101"
    by (simp_all add: define_booking_def)
  show ?thesis
    using is_room_available_iff_no_overlap
            [of "[(''b1'', ?b)]" 0 101 "datetime_of 2024 3 1 10 0 0" "datetime_of 2024 3 1 11 0 0"]
          is_room_available_iff_no_overlap
            [of "[(''b1'', ?b)]" 0 101 "datetime_of 2024 3 1 9 30 0" "datetime_of 2024 3 1 10 30 0"]
          e lt1 lt2 f
    by simp
qed

subsection \<open>Cancelling a booking\<close>

text \<open>
  C5. \<open>del_booking\<close> answers "Booking cancelled." exactly when the booking id is in
  the store and the current time is strictly earlier than the start time minus 15
  minutes, and then the booking is removed. In every other case the store is unchanged:
  an id that is not stored is answered "Booking not found.", and a request made exactly
  15 minutes before the start is answered with the too-late message.
\<close>

theorem del_booking_cancel_window:
  "((fst (del_booking now bid s) = Cancelled) =
      (\<exists>b t. map_of (all_bookings s) bid = Some b
             \<and> dt_minus (booking.start_time b) (timedelta_minutes 15) = Some t
             \<and> dt_lt now t))
   \<and> (fst (del_booking now bid s) = Cancelled \<longrightarrow>
         snd (del_booking now bid s) = s\<lparr>all_bookings := AList.delete bid (all_bookings s)\<rparr>
         \<and> map_of (all_bookings (snd (del_booking now bid s))) bid = None)
   \<and> (fst (del_booking now bid s) \<noteq> Cancelled \<longrightarrow> snd (del_booking now bid s) = s)
   \<and> (map_of (all_bookings s) bid = None \<longrightarrow> del_booking now bid s = (BookingNotFound, s))
   \<and> (\<forall>b. map_of (all_bookings s) bid = Some b
            \<and> dt_minus (booking.start_time b) (timedelta_minutes 15) = Some now
          \<longrightarrow> del_booking now bid s = (TooLate, s))"
  by (auto simp: del_booking_def dt_lt_irrefl AList.delete_conv' split: option.splits)

text \<open>
  The booking \<open>b1\<close> starts at 09:00:00: it is cancelled at 08:44:59, refused at
  08:45:00, and the id \<open>b2\<close> is not found.
\<close>

theorem del_booking_cancel_window_witness:
  "map_of (all_bookings store_with_booking) ''b1'' = Some first_booking
   \<and> dt_minus (booking.start_time first_booking) (timedelta_minutes 15)
       = Some (datetime_of 2024 3 1 8 45 0)
   \<and> dt_lt (datetime_of 2024 3 1 8 44 59) (datetime_of 2024 3 1 8 45 0)
   \<and> del_booking (datetime_of 2024 3 1 8 44 59) ''b1'' store_with_booking
       = (Cancelled, store_with_user)
   \<and> del_booking (datetime_of 2024 3 1 8 45 0) ''b1'' store_with_booking
       = (TooLate, store_with_booking)
   \<and> map_of (all_bookings store_with_booking) ''b2'' = None
   \<and> del_booking scenario_now ''b2'' store_with_booking = (BookingNotFound, store_with_booking)"
proof -
  have m: "map_of (all_bookings store_with_booking) ''b1'' = Some first_booking"
    by (simp add: store_with_booking_def)
  have t: "dt_minus (booking.start_time first_booking) (timedelta_minutes 15)
             = Some (datetime_of 2024 3 1 8 45 0)"
    by code_simp
  have lt: "dt_lt (datetime_of 2024 3 1 8 44 59) (datetime_of 2024 3 1 8 45 0)"
    by (simp add: dt_lt_def dt_tuple_def datetime_of_def)
  have n: "map_of (all_bookings store_with_booking) ''b2'' = None"
    by (simp add: store_with_booking_def)
  have d: "store_with_booking\<lparr>all_bookings := AList.delete ''b1'' (all_bookings store_with_booking)\<rparr>
             = store_with_user"
    by code_simp
  have c: "fst (del_booking (datetime_of 2024 3 1 8 44 59) ''b1'' store_with_booking) = Cancelled"
    using del_booking_cancel_window
            [of "datetime_of 2024 3 1 8 44 59" "''b1''" store_with_booking] m t lt
    by blast
  have "snd (del_booking (datetime_of 2024 3 1 8 44 59) ''b1'' store_with_booking)
          = store_with_user"
    using del_booking_cancel_window
            [of "datetime_of 2024 3 1 8 44 59" "''b1''" store_with_booking] c d
    by simp
  with c have c': "del_booking (datetime_of 2024 3 1 8 44 59) ''b1'' store_with_booking
                     = (Cancelled, store_with_user)"
    by (simp add: prod_eq_iff)
  have l: "del_booking (datetime_of 2024 3 1 8 45 0) ''b1'' store_with_booking
             = (TooLate, store_with_booking)"
    using del_booking_cancel_window
            [of "datetime_of 2024 3 1 8 45 0" "''b1''" store_with_booking] m t
    by blast
  have f: "del_booking scenario_now ''b2'' store_with_booking
             = (BookingNotFound, store_with_booking)"
    using del_booking_cancel_window [of scenario_now "''b2''" store_with_booking] n
    by blast
  from m t lt c' l n f show ?thesis by simp
qed

subsection \<open>Facts about the example inputs\<close>

lemma acme_request_fields:
  "booking_data.start_time (acme_request f r em st en) = Parsed st"
  "booking_data.end_time (acme_request f r em st en) = Parsed en"
  "booking_data.organization (acme_request f r em st en) = Some ''Acme''"
  "booking_data.floor_number (acme_request f r em st en) = Some f"
  "booking_data.room_number (acme_request f r em st en) = Some r"
  "booking_data.booked_by (acme_request f r em st en) = Some [(''email'', em)]"
  by (simp_all add: acme_request_def)

lemma lower_Acme: "lower ''Acme'' = ''acme''"
  by code_simp

lemma store_with_user_fields:
  "all_floors store_with_user = [(0, floor_zero)]"
  "all_bookings store_with_user = []"
  "all_orgs store_with_user = [(''acme'', acme_org)]"
  "organization_booking_hours store_with_user = []"
  by code_simp+

lemma store_with_booking_fields:
  "all_floors store_with_booking = [(0, floor_zero)]"
  "all_bookings store_with_booking = [(''b1'', first_booking)]"
  "all_orgs store_with_booking = [(''acme'', acme_org)]"
  "organization_booking_hours store_with_booking = []"
  by code_simp+

lemma store_with_hours_fields:
  "all_floors store_with_hours = [(0, floor_zero)]"
  "all_bookings store_with_hours = [(''b1'', first_booking)]"
  "all_orgs store_with_hours = [(''acme'', acme_org)]"
  "organization_booking_hours store_with_hours = [(''acme'', 29)]"
  by code_simp+

lemma floor_zero_rooms:
  "map fst (rooms floor_zero) = [101]" "fst ` set (rooms floor_zero) = {101}"
  by (simp_all add: floor_zero_def)

lemma acme_org_users: "map_of acme_org ''users'' = Some (OUsers acme_users)"
  by (simp add: acme_org_def)

lemma acme_users_keys:
  "map fst acme_users = [''u1@acme.com'']" "fst ` set acme_users = {''u1@acme.com''}"
  by (simp_all add: acme_users_def)

lemma hour_length:
  "total_seconds (dt_diff (datetime_of 2024 3 1 10 0 0) (datetime_of 2024 3 1 9 0 0)) / 3600 = 1"
  "total_seconds (dt_diff (datetime_of 2024 3 1 11 0 0) (datetime_of 2024 3 1 10 0 0)) / 3600 = 1"
  "total_seconds (dt_diff (datetime_of 2024 3 1 12 0 0) (datetime_of 2024 3 1 10 0 0)) / 3600 = 2"
  by (simp_all add: total_seconds_def dt_diff_def dt_micros_def datetime_of_def)

lemma first_booking_blocks:
  "is_room_available [(''b1'', first_booking)] 0 101
     (datetime_of 2024 3 1 9 0 0) (datetime_of 2024 3 1 10 0 0) = False"
  "is_room_available [(''b1'', first_booking)] 0 101
     (datetime_of 2024 3 1 10 0 0) (datetime_of 2024 3 1 11 0 0) = True"
  by code_simp+

subsection \<open>The monthly reset\<close>

lemma reset_monthly_booking_hours_idem:
  "reset_monthly_booking_hours now (reset_monthly_booking_hours now h)
     = reset_monthly_booking_hours now h"
  by (simp add: reset_monthly_booking_hours_def)

lemma add_boooking_reset_first:
  "add_boooking now uuid data s =
     add_boooking now uuid data
       (s\<lparr>organization_booking_hours :=
            reset_monthly_booking_hours now (organization_booking_hours s)\<rparr>)"
  by (simp add: add_boooking_def reset_monthly_booking_hours_idem)

lemma add_boooking_early_or_late:
  "(case add_boooking now uuid data s of
      (r, s1) \<Rightarrow> r = MonthlyLimit \<or> r = AlreadyBooked \<or> (\<exists>b. r = Booked b)
                 \<or> s1 = s\<lparr>organization_booking_hours :=
                             reset_monthly_booking_hours now (organization_booking_hours s)\<rparr>)"
  by (simp add: add_boooking_def Let_def split: timearg.split option.split orgval.split)

lemma add_boooking_rejected_early:
  "fst (add_boooking now uuid data s) \<noteq> MonthlyLimit
   \<Longrightarrow> fst (add_boooking now uuid data s) \<noteq> AlreadyBooked
   \<Longrightarrow> \<forall>b. fst (add_boooking now uuid data s) \<noteq> Booked b
   \<Longrightarrow> snd (add_boooking now uuid data s) =
         s\<lparr>organization_booking_hours :=
              reset_monthly_booking_hours now (organization_booking_hours s)\<rparr>"
  using add_boooking_early_or_late [where now=now and uuid=uuid and data=data and s=s]
  by (cases "add_boooking now uuid data s") auto

text \<open>
  C9. Every call of \<open>add_boooking\<close> first resets the tracker: the tracker is emptied
  when the current date is the first day of a month and left as it is on any other day;
  resetting twice at the same time is resetting once. The request is handled on the
  tracker after the reset, so what the tracker held before a first-day call has no
  effect on the answer or the store; a call that is answered before the quota step
  leaves the store as it was but for the reset tracker.
\<close>

theorem reset_monthly_booking_hours_on_first_day:
  "reset_monthly_booking_hours now h = (if day now = 1 then [] else h)
   \<and> reset_monthly_booking_hours now (reset_monthly_booking_hours now h)
       = reset_monthly_booking_hours now h
   \<and> add_boooking now uuid data s =
       add_boooking now uuid data
         (s\<lparr>organization_booking_hours := (if day now = 1 then [] else organization_booking_hours s)\<rparr>)
   \<and> (fst (add_boooking now uuid data s) \<noteq> MonthlyLimit
        \<and> fst (add_boooking now uuid data s) \<noteq> AlreadyBooked
        \<and> (\<forall>b. fst (add_boooking now uuid data s) \<noteq> Booked b)
      \<longrightarrow> snd (add_boooking now uuid data s) =
            s\<lparr>organization_booking_hours := (if day now = 1 then [] else organization_booking_hours s)\<rparr>)"
proof (intro conjI impI)
  show "reset_monthly_booking_hours now h = (if day now = 1 then [] else h)"
    by (simp add: reset_monthly_booking_hours_def)
  show "reset_monthly_booking_hours now (reset_monthly_booking_hours now h)
          = reset_monthly_booking_hours now h"
    by (rule reset_monthly_booking_hours_idem)
  show "add_boooking now uuid data s =
       add_boooking now uuid data
         (s\<lparr>organization_booking_hours := (if day now = 1 then [] else organization_booking_hours s)\<rparr>)"
    using add_boooking_reset_first [of now uuid data s]
    by (simp add: reset_monthly_booking_hours_def)
next
  assume "fst (add_boooking now uuid data s) \<noteq> MonthlyLimit
        \<and> fst (add_boooking now uuid data s) \<noteq> AlreadyBooked
        \<and> (\<forall>b. fst (add_boooking now uuid data s) \<noteq> Booked b)"
  then show "snd (add_boooking now uuid data s) =
            s\<lparr>organization_booking_hours := (if day now = 1 then [] else organization_booking_hours s)\<rparr>"
    using add_boooking_rejected_early [of now uuid data s]
    by (simp add: reset_monthly_booking_hours_def)
qed

text \<open>
  The tracker holds 29 hours for acme and the request is refused for its half-hour
  times: on 2024-03-01 the tracker is empty afterwards, on 2024-02-20 it is unchanged.
\<close>

theorem reset_monthly_booking_hours_on_first_day_witness:
  "day (datetime_of 2024 3 1 8 0 0) = 1
   \<and> add_boooking (datetime_of 2024 3 1 8 0 0) ''b2'' scenario_second_booking_data store_with_hours
       = (HourlySlotsOnly, store_with_booking)
   \<and> day scenario_now = 20
   \<and> add_boooking scenario_now ''b2'' scenario_second_booking_data store_with_hours
       = (HourlySlotsOnly, store_with_hours)"
proof -
  have d1: "day (datetime_of 2024 3 1 8 0 0) = 1"
    by (simp add: datetime_of_def)
  have d2: "day scenario_now = 20"
    by (simp add: scenario_now_def datetime_of_def)
  have r1: "fst (add_boooking (datetime_of 2024 3 1 8 0 0) ''b2'' scenario_second_booking_data
                   store_with_hours) = HourlySlotsOnly"
    by code_simp
  have r2: "fst (add_boooking scenario_now ''b2'' scenario_second_booking_data store_with_hours)
              = HourlySlotsOnly"
    by code_simp
  have e1: "store_with_hours\<lparr>organization_booking_hours := []\<rparr> = store_with_booking"
    by code_simp
  note t1 = reset_monthly_booking_hours_on_first_day
              [of "datetime_of 2024 3 1 8 0 0" "[]" "''b2''" scenario_second_booking_data
                  store_with_hours, THEN conjunct2, THEN conjunct2, THEN conjunct2]
  note t2 = reset_monthly_booking_hours_on_first_day
              [of scenario_now "[]" "''b2''" scenario_second_booking_data store_with_hours,
               THEN conjunct2, THEN conjunct2, THEN conjunct2]
  have s1: "snd (add_boooking (datetime_of 2024 3 1 8 0 0) ''b2'' scenario_second_booking_data
                   store_with_hours) = store_with_booking"
    using t1 r1 d1 e1 by simp
  have s2: "snd (add_boooking scenario_now ''b2'' scenario_second_booking_data store_with_hours)
              = store_with_hours"
    using t2 r2 d2 by simp
  from d1 d2 r1 r2 s1 s2 show ?thesis
    by (simp add: prod_eq_iff)
qed

subsection \<open>The checks of a booking request\<close>

lemma add_boooking_hourly:
  "booking_data.start_time data = Parsed st \<Longrightarrow> booking_data.end_time data = Parsed en
   \<Longrightarrow> booking_data.organization data = Some org0
   \<Longrightarrow> minute st \<noteq> 0 \<or> second st \<noteq> 0 \<or> minute en \<noteq> 0 \<or> second en \<noteq> 0
   \<Longrightarrow> add_boooking now uuid data s =
         (HourlySlotsOnly,
          s\<lparr>organization_booking_hours :=
               reset_monthly_booking_hours now (organization_booking_hours s)\<rparr>)"
  by (simp add: add_boooking_def Let_def)

lemma add_boooking_floor:
  "booking_data.start_time data = Parsed st \<Longrightarrow> booking_data.end_time data = Parsed en
   \<Longrightarrow> booking_data.organization data = Some org0
   \<Longrightarrow> minute st = 0 \<and> second st = 0 \<and> minute en = 0 \<and> second en = 0
   \<Longrightarrow> booking_data.floor_number data = Some fnum
   \<Longrightarrow> map_of (all_floors s) fnum = None
   \<Longrightarrow> add_boooking now uuid data s =
         (FloorNotAdded fnum,
          s\<lparr>organization_booking_hours :=
               reset_monthly_booking_hours now (organization_booking_hours s)\<rparr>)"
  by (simp add: add_boooking_def Let_def)

lemma add_boooking_room:
  "booking_data.start_time data = Parsed st \<Longrightarrow> booking_data.end_time data = Parsed en
   \<Longrightarrow> booking_data.organization data = Some org0
   \<Longrightarrow> minute st = 0 \<and> second st = 0 \<and> minute en = 0 \<and> second en = 0
   \<Longrightarrow> booking_data.floor_number data = Some fnum
   \<Longrightarrow> map_of (all_floors s) fnum = Some fl
   \<Longrightarrow> booking_data.room_number data = Some rnum
   \<Longrightarrow> rnum \<notin> set (map fst (rooms fl))
   \<Longrightarrow> add_boooking now uuid data s =
         (RoomNotAdded rnum,
          s\<lparr>organization_booking_hours :=
               reset_monthly_booking_hours now (organization_booking_hours s)\<rparr>)"
  by (simp add: add_boooking_def Let_def)

lemma add_boooking_user_lookup:
  "booking_data.start_time data = Parsed st \<Longrightarrow> booking_data.end_time data = Parsed en
   \<Longrightarrow> booking_data.organization data = Some org0
   \<Longrightarrow> minute st = 0 \<and> second st = 0 \<and> minute en = 0 \<and> second en = 0
   \<Longrightarrow> booking_data.floor_number data = Some fnum
   \<Longrightarrow> map_of (all_floors s) fnum = Some fl
   \<Longrightarrow> booking_data.room_number data = Some rnum
   \<Longrightarrow> rnum \<in> set (map fst (rooms fl))
   \<Longrightarrow> booking_data.booked_by data = Some bb
   \<Longrightarrow> map_of bb ''email'' = Some em
   \<Longrightarrow> add_boooking now uuid data s =
         (case map_of (all_orgs s) (lower org0) of
            None \<Rightarrow> (Exception (KeyError (lower org0)),
                     s\<lparr>organization_booking_hours :=
                          reset_monthly_booking_hours now (organization_booking_hours s)\<rparr>)
          | Some org \<Rightarrow>
              (case map_of org ''users'' of
                 None \<Rightarrow> (Exception (KeyError ''users''),
                          s\<lparr>organization_booking_hours :=
                               reset_monthly_booking_hours now (organization_booking_hours s)\<rparr>)
               | Some (OStr v) \<Rightarrow> (Exception AttributeError,
                          s\<lparr>organization_booking_hours :=
                               reset_monthly_booking_hours now (organization_booking_hours s)\<rparr>)
               | Some (OUserList l) \<Rightarrow> (Exception AttributeError,
                          s\<lparr>organization_booking_hours :=
                               reset_monthly_booking_hours now (organization_booking_hours s)\<rparr>)
               | Some (OUsers d) \<Rightarrow>
                   if em \<notin> set (map fst d)
                   then (NoSuchUser,
                          s\<lparr>organization_booking_hours :=
                               reset_monthly_booking_hours now (organization_booking_hours s)\<rparr>)
                   else
                     (if 30 < (case map_of (reset_monthly_booking_hours now
                                              (organization_booking_hours s)) (lower org0) of
                                 None \<Rightarrow> 0 | Some h \<Rightarrow> h)
                               + total_seconds (dt_diff en st) / 3600
                      then (MonthlyLimit,
                            s\<lparr>organization_booking_hours :=
                                AList.update (lower org0)
                                  ((case map_of (reset_monthly_booking_hours now
                                              (organization_booking_hours s)) (lower org0) of
                                      None \<Rightarrow> 0 | Some h \<Rightarrow> h)
                                   + total_seconds (dt_diff en st) / 3600)
                                  (reset_monthly_booking_hours now (organization_booking_hours s))\<rparr>)
                      else if \<not> is_room_available (all_bookings s) fnum rnum st en
                      then (AlreadyBooked,
                            s\<lparr>organization_booking_hours :=
                                AList.update (lower org0)
                                  ((case map_of (reset_monthly_booking_hours now
                                              (organization_booking_hours s)) (lower org0) of
                                      None \<Rightarrow> 0 | Some h \<Rightarrow> h)
                                   + total_seconds (dt_diff en st) / 3600)
                                  (reset_monthly_booking_hours now (organization_booking_hours s))\<rparr>)
                      else (Booked (define_booking uuid fnum rnum org0 bb st en),
                            s\<lparr>organization_booking_hours :=
                                AList.update (lower org0)
                                  ((case map_of (reset_monthly_booking_hours now
                                              (organization_booking_hours s)) (lower org0) of
                                      None \<Rightarrow> 0 | Some h \<Rightarrow> h)
                                   + total_seconds (dt_diff en st) / 3600)
                                  (reset_monthly_booking_hours now (organization_booking_hours s)),
                              all_bookings :=
                                AList.update uuid (define_booking uuid fnum rnum org0 bb st en)
                                  (all_bookings s)\<rparr>))))"
  by (simp add: add_boooking_def Let_def AList.update_conv' define_booking_def
           split: option.split orgval.split)


text \<open>
  C4. When the request is well formed and the time, floor, room and user checks have
  passed, the tracker of the (lowered) organization name holds afterwards what it held
  after the reset (0 if nothing) plus the duration in hours, whatever the answer; the
  answer is the monthly-limit message exactly when this new total is greater than 30 (a
  total of exactly 30 is not refused); a request that is then refused because the room
  is taken leaves the increased total on the tracker.
\<close>

theorem add_boooking_quota_step:
  fixes now :: datetime and s :: store and data :: booking_data
  defines "hours \<equiv> reset_monthly_booking_hours now (organization_booking_hours s)"
  assumes "booking_data.start_time data = Parsed st"
    and "booking_data.end_time data = Parsed en"
    and "booking_data.organization data = Some org0"
    and "minute st = 0 \<and> second st = 0 \<and> minute en = 0 \<and> second en = 0"
    and "booking_data.floor_number data = Some fnum"
    and "map_of (all_floors s) fnum = Some fl"
    and "booking_data.room_number data = Some rnum"
    and "rnum \<in> set (map fst (rooms fl))"
    and "booking_data.booked_by data = Some bb"
    and "map_of bb ''email'' = Some em"
    and "map_of (all_orgs s) (lower org0) = Some org"
    and "map_of org ''users'' = Some (OUsers d)"
    and "em \<in> set (map fst d)"
    and "new_total = (case map_of hours (lower org0) of None \<Rightarrow> 0 | Some h \<Rightarrow> h)
                   + total_seconds (dt_diff en st) / 3600"
  shows "map_of (organization_booking_hours (snd (add_boooking now uuid data s))) (lower org0)
           = Some new_total
       \<and> ((fst (add_boooking now uuid data s) = MonthlyLimit) = (30 < new_total))
       \<and> (new_total = 30 \<longrightarrow> fst (add_boooking now uuid data s) \<noteq> MonthlyLimit)
       \<and> (new_total \<le> 30 \<and> is_room_available (all_bookings s) fnum rnum st en = False
            \<longrightarrow> fst (add_boooking now uuid data s) = AlreadyBooked
                \<and> map_of (organization_booking_hours (snd (add_boooking now uuid data s)))
                     (lower org0) = Some new_total)"
proof -
  have r: "add_boooking now uuid data s =
      (if 30 < new_total
       then (MonthlyLimit, s\<lparr>organization_booking_hours := AList.update (lower org0) new_total hours\<rparr>)
       else if \<not> is_room_available (all_bookings s) fnum rnum st en
       then (AlreadyBooked, s\<lparr>organization_booking_hours := AList.update (lower org0) new_total hours\<rparr>)
       else (Booked (define_booking uuid fnum rnum org0 bb st en),
             s\<lparr>organization_booking_hours := AList.update (lower org0) new_total hours,
               all_bookings := AList.update uuid (define_booking uuid fnum rnum org0 bb st en)
                                 (all_bookings s)\<rparr>))"
    using assms(2-14) add_boooking_user_lookup [of data st en org0 fnum s fl rnum bb em now uuid]
    by (simp add: assms(15) hours_def)
  show ?thesis
    by (simp add: r AList.update_conv')
qed


text \<open>
  Acme has used 29 hours. A booking of one hour brings the total to exactly 30 and is
  not refused for the limit; a booking of two hours is refused with 31 hours on the
  tracker; a booking of the taken slot 09:00 to 10:00 is refused as already booked and
  leaves 30 hours on the tracker.
\<close>

theorem add_boooking_quota_step_witness:
  "map_of (organization_booking_hours
            (snd (add_boooking scenario_now ''b2''
                   (acme_request 0 101 ''u1@acme.com'' (datetime_of 2024 3 1 10 0 0)
                      (datetime_of 2024 3 1 11 0 0)) store_with_hours))) ''acme'' = Some 30
   \<and> fst (add_boooking scenario_now ''b2''
            (acme_request 0 101 ''u1@acme.com'' (datetime_of 2024 3 1 10 0 0)
               (datetime_of 2024 3 1 11 0 0)) store_with_hours) \<noteq> MonthlyLimit
   \<and> fst (add_boooking scenario_now ''b2''
            (acme_request 0 101 ''u1@acme.com'' (datetime_of 2024 3 1 10 0 0)
               (datetime_of 2024 3 1 12 0 0)) store_with_hours) = MonthlyLimit
   \<and> map_of (organization_booking_hours
            (snd (add_boooking scenario_now ''b2''
                   (acme_request 0 101 ''u1@acme.com'' (datetime_of 2024 3 1 10 0 0)
                      (datetime_of 2024 3 1 12 0 0)) store_with_hours))) ''acme'' = Some 31
   \<and> is_room_available (all_bookings store_with_hours) 0 101
        (datetime_of 2024 3 1 9 0 0) (datetime_of 2024 3 1 10 0 0) = False
   \<and> fst (add_boooking scenario_now ''b2''
            (acme_request 0 101 ''u1@acme.com'' (datetime_of 2024 3 1 9 0 0)
               (datetime_of 2024 3 1 10 0 0)) store_with_hours) = AlreadyBooked
   \<and> map_of (organization_booking_hours
            (snd (add_boooking scenario_now ''b2''
                   (acme_request 0 101 ''u1@acme.com'' (datetime_of 2024 3 1 9 0 0)
                      (datetime_of 2024 3 1 10 0 0)) store_with_hours))) ''acme'' = Some 30"
proof -
  have al: "\<And>h k. minute (datetime_of 2024 3 1 h 0 0) = 0 \<and> second (datetime_of 2024 3 1 h 0 0) = 0
               \<and> minute (datetime_of 2024 3 1 k 0 0) = 0 \<and> second (datetime_of 2024 3 1 k 0 0) = 0"
    by (simp add: datetime_of_def)
  have fl: "map_of (all_floors store_with_hours) 0 = Some floor_zero"
    by (simp add: store_with_hours_fields)
  have rm: "101 \<in> set (map fst (rooms floor_zero))"
    by (simp add: floor_zero_rooms)
  have em: "map_of [(''email'', ''u1@acme.com'')] ''email'' = Some ''u1@acme.com''"
    by simp
  have og: "map_of (all_orgs store_with_hours) (lower ''Acme'') = Some acme_org"
    by (simp add: store_with_hours_fields lower_Acme)
  have us: "''u1@acme.com'' \<in> set (map fst acme_users)"
    by (simp add: acme_users_keys)
  have d20: "day scenario_now \<noteq> 1"
    by (simp add: scenario_now_def datetime_of_def)
  have used: "(case map_of (reset_monthly_booking_hours scenario_now
                              (organization_booking_hours store_with_hours)) (lower ''Acme'') of
                 None \<Rightarrow> 0 | Some h \<Rightarrow> h) = (29::real)"
    using d20 by (simp add: reset_monthly_booking_hours_def store_with_hours_fields lower_Acme)
  have n30a: "(30::real) = (case map_of (reset_monthly_booking_hours scenario_now
                              (organization_booking_hours store_with_hours)) (lower ''Acme'') of
                 None \<Rightarrow> 0 | Some h \<Rightarrow> h)
               + total_seconds (dt_diff (datetime_of 2024 3 1 11 0 0)
                                  (datetime_of 2024 3 1 10 0 0)) / 3600"
    by (simp add: used hour_length)
  have n31: "(31::real) = (case map_of (reset_monthly_booking_hours scenario_now
                              (organization_booking_hours store_with_hours)) (lower ''Acme'') of
                 None \<Rightarrow> 0 | Some h \<Rightarrow> h)
               + total_seconds (dt_diff (datetime_of 2024 3 1 12 0 0)
                                  (datetime_of 2024 3 1 10 0 0)) / 3600"
    by (simp add: used hour_length)
  have n30c: "(30::real) = (case map_of (reset_monthly_booking_hours scenario_now
                              (organization_booking_hours store_with_hours)) (lower ''Acme'') of
                 None \<Rightarrow> 0 | Some h \<Rightarrow> h)
               + total_seconds (dt_diff (datetime_of 2024 3 1 10 0 0)
                                  (datetime_of 2024 3 1 9 0 0)) / 3600"
    by (simp add: used hour_length)
  have taken: "is_room_available (all_bookings store_with_hours) 0 101
                 (datetime_of 2024 3 1 9 0 0) (datetime_of 2024 3 1 10 0 0) = False"
    by (simp add: store_with_hours_fields first_booking_blocks)
  note a = add_boooking_quota_step
             [OF acme_request_fields(1-3) al acme_request_fields(4) fl acme_request_fields(5)
                 rm acme_request_fields(6) em og acme_org_users us n30a, of "''b2''"]
  note b = add_boooking_quota_step
             [OF acme_request_fields(1-3) al acme_request_fields(4) fl acme_request_fields(5)
                 rm acme_request_fields(6) em og acme_org_users us n31, of "''b2''"]
  note c = add_boooking_quota_step
             [OF acme_request_fields(1-3) al acme_request_fields(4) fl acme_request_fields(5)
                 rm acme_request_fields(6) em og acme_org_users us n30c, of "''b2''"]
  from a b c taken show ?thesis
    by (simp add: lower_Acme)
qed

text \<open>
  C8. For a request whose times parse and that names an organization, the checks are
  made in this order and the first one that fails decides the answer: whole hours,
  floor, room on the floor, user (a missing organization or a missing \<open>users\<close> key is
  a \<open>KeyError\<close> here), monthly limit, availability. So half-hour times are refused
  for the times whatever the floor is, and whole hours on a missing floor are refused
  for the floor whatever the room is.
\<close>

theorem add_boooking_validation_order:
  assumes "booking_data.start_time data = Parsed st"
    and "booking_data.end_time data = Parsed en"
    and "booking_data.organization data = Some org0"
  shows
   "(minute st \<noteq> 0 \<or> second st \<noteq> 0 \<or> minute en \<noteq> 0 \<or> second en \<noteq> 0
       \<longrightarrow> fst (add_boooking now uuid data s) = HourlySlotsOnly)
    \<and> (minute st = 0 \<and> second st = 0 \<and> minute en = 0 \<and> second en = 0
        \<and> booking_data.floor_number data = Some fnum
       \<longrightarrow>
         (map_of (all_floors s) fnum = None
            \<longrightarrow> fst (add_boooking now uuid data s) = FloorNotAdded fnum)
       \<and> (\<forall>fl rnum. map_of (all_floors s) fnum = Some fl
                     \<and> booking_data.room_number data = Some rnum
            \<longrightarrow>
              (rnum \<notin> set (map fst (rooms fl))
                 \<longrightarrow> fst (add_boooking now uuid data s) = RoomNotAdded rnum)
            \<and> (\<forall>bb em. rnum \<in> set (map fst (rooms fl))
                        \<and> booking_data.booked_by data = Some bb
                        \<and> map_of bb ''email'' = Some em
                 \<longrightarrow>
                   (map_of (all_orgs s) (lower org0) = None
                      \<longrightarrow> fst (add_boooking now uuid data s) = Exception (KeyError (lower org0)))
                 \<and> (\<forall>org. map_of (all_orgs s) (lower org0) = Some org
                      \<longrightarrow>
                        (map_of org ''users'' = None
                           \<longrightarrow> fst (add_boooking now uuid data s)
                                 = Exception (KeyError ''users''))
                      \<and> (\<forall>d. map_of org ''users'' = Some (OUsers d)
                           \<longrightarrow>
                             (em \<notin> set (map fst d)
                                \<longrightarrow> fst (add_boooking now uuid data s) = NoSuchUser)
                           \<and> (em \<in> set (map fst d)
                              \<and> 30 < (case map_of (reset_monthly_booking_hours now
                                                     (organization_booking_hours s))
                                             (lower org0) of
                                        None \<Rightarrow> 0 | Some h \<Rightarrow> h)
                                      + total_seconds (dt_diff en st) / 3600
                                \<longrightarrow> fst (add_boooking now uuid data s) = MonthlyLimit)
                           \<and> (em \<in> set (map fst d)
                              \<and> (case map_of (reset_monthly_booking_hours now
                                                (organization_booking_hours s))
                                        (lower org0) of
                                   None \<Rightarrow> 0 | Some h \<Rightarrow> h)
                                 + total_seconds (dt_diff en st) / 3600 \<le> 30
                                \<longrightarrow>
                                  (is_room_available (all_bookings s) fnum rnum st en = False
                                     \<longrightarrow> fst (add_boooking now uuid data s) = AlreadyBooked)
                                \<and> (is_room_available (all_bookings s) fnum rnum st en = True
                                     \<longrightarrow> fst (add_boooking now uuid data s)
                                           = Booked (define_booking uuid fnum rnum org0 bb
                                                       st en))))))))"
proof (intro conjI impI allI; (elim conjE)?)
  assume "minute st \<noteq> 0 \<or> second st \<noteq> 0 \<or> minute en \<noteq> 0 \<or> second en \<noteq> 0"
  then show "fst (add_boooking now uuid data s) = HourlySlotsOnly"
    using assms by (simp add: add_boooking_hourly)
next
  assume "minute st = 0" "second st = 0" "minute en = 0" "second en = 0"
    "booking_data.floor_number data = Some fnum" "map_of (all_floors s) fnum = None"
  then show "fst (add_boooking now uuid data s) = FloorNotAdded fnum"
    using assms by (simp add: add_boooking_floor)
next
  fix fl rnum
  assume "minute st = 0" "second st = 0" "minute en = 0" "second en = 0"
    "booking_data.floor_number data = Some fnum" "map_of (all_floors s) fnum = Some fl"
    "booking_data.room_number data = Some rnum" "rnum \<notin> set (map fst (rooms fl))"
  then show "fst (add_boooking now uuid data s) = RoomNotAdded rnum"
    using assms add_boooking_room [of data st en org0 fnum s fl rnum now uuid] by simp
next
  fix fl rnum bb em
  assume a: "minute st = 0" "second st = 0" "minute en = 0" "second en = 0"
    "booking_data.floor_number data = Some fnum" "map_of (all_floors s) fnum = Some fl"
    "booking_data.room_number data = Some rnum" "rnum \<in> set (map fst (rooms fl))"
    "booking_data.booked_by data = Some bb" "map_of bb ''email'' = Some em"
  note u = add_boooking_user_lookup [of data st en org0 fnum s fl rnum bb em now uuid]
  {
    assume "map_of (all_orgs s) (lower org0) = None"
    then show "fst (add_boooking now uuid data s) = Exception (KeyError (lower org0))"
      using assms a u by simp
  }
  fix org
  assume o: "map_of (all_orgs s) (lower org0) = Some org"
  {
    assume "map_of org ''users'' = None"
    then show "fst (add_boooking now uuid data s) = Exception (KeyError ''users'')"
      using assms a o u by simp
  }
  fix d
  assume d: "map_of org ''users'' = Some (OUsers d)"
  {
    assume "em \<notin> set (map fst d)"
    then show "fst (add_boooking now uuid data s) = NoSuchUser"
      using assms a o d u by simp
  }
  {
    assume "em \<in> set (map fst d)"
      "30 < (case map_of (reset_monthly_booking_hours now (organization_booking_hours s))
                   (lower org0) of None \<Rightarrow> 0 | Some h \<Rightarrow> h)
            + total_seconds (dt_diff en st) / 3600"
    then show "fst (add_boooking now uuid data s) = MonthlyLimit"
      using assms a o d u by simp
  }
  assume q: "em \<in> set (map fst d)"
      "(case map_of (reset_monthly_booking_hours now (organization_booking_hours s))
                   (lower org0) of None \<Rightarrow> 0 | Some h \<Rightarrow> h)
            + total_seconds (dt_diff en st) / 3600 \<le> 30"
  {
    assume "is_room_available (all_bookings s) fnum rnum st en = False"
    then show "fst (add_boooking now uuid data s) = AlreadyBooked"
      using assms a o d q u by simp
  }
  {
    assume "is_room_available (all_bookings s) fnum rnum st en = True"
    then show "fst (add_boooking now uuid data s)
                 = Booked (define_booking uuid fnum rnum org0 bb st en)"
      using assms a o d q u by simp
  }
qed

text \<open>
  On the store with the user and the booking \<open>b1\<close>: half-hour times on a floor that
  does not exist are refused for the times; whole hours on floor 7 and room 999 are
  refused for the floor; room 999 on floor 0 is refused for the room; an unknown email
  is refused for the user; the taken slot is refused as already booked; the slot 10:00
  to 11:00 is booked.
\<close>

theorem add_boooking_validation_order_witness:
  "fst (add_boooking scenario_now ''b2''
          (acme_request 7 999 ''u1@acme.com'' (datetime_of 2024 3 1 9 30 0)
             (datetime_of 2024 3 1 10 30 0)) store_with_booking) = HourlySlotsOnly
   \<and> map_of (all_floors store_with_booking) 7 = None
   \<and> fst (add_boooking scenario_now ''b2''
          (acme_request 7 999 ''u1@acme.com'' (datetime_of 2024 3 1 9 0 0)
             (datetime_of 2024 3 1 10 0 0)) store_with_booking) = FloorNotAdded 7
   \<and> fst (add_boooking scenario_now ''b2''
          (acme_request 0 999 ''u1@acme.com'' (datetime_of 2024 3 1 9 0 0)
             (datetime_of 2024 3 1 10 0 0)) store_with_booking) = RoomNotAdded 999
   \<and> fst (add_boooking scenario_now ''b2''
          (acme_request 0 101 ''u2@acme.com'' (datetime_of 2024 3 1 9 0 0)
             (datetime_of 2024 3 1 10 0 0)) store_with_booking) = NoSuchUser
   \<and> fst (add_boooking scenario_now ''b2''
          (acme_request 0 101 ''u1@acme.com'' (datetime_of 2024 3 1 9 0 0)
             (datetime_of 2024 3 1 10 0 0)) store_with_booking) = AlreadyBooked
   \<and> fst (add_boooking scenario_now ''b2''
          (acme_request 0 101 ''u1@acme.com'' (datetime_of 2024 3 1 10 0 0)
             (datetime_of 2024 3 1 11 0 0)) store_with_booking)
       = Booked (define_booking ''b2'' 0 101 ''Acme'' [(''email'', ''u1@acme.com'')]
                   (datetime_of 2024 3 1 10 0 0) (datetime_of 2024 3 1 11 0 0))"
proof -
  have half: "minute (datetime_of 2024 3 1 9 30 0) \<noteq> 0"
    by (simp add: datetime_of_def)
  have al: "\<And>h. minute (datetime_of 2024 3 1 h 0 0) = 0 \<and> second (datetime_of 2024 3 1 h 0 0) = 0"
    by (simp add: datetime_of_def)
  have f7: "map_of (all_floors store_with_booking) 7 = None"
    by (simp add: store_with_booking_fields)
  have f0: "map_of (all_floors store_with_booking) 0 = Some floor_zero"
    by (simp add: store_with_booking_fields)
  have og: "map_of (all_orgs store_with_booking) (lower ''Acme'') = Some acme_org"
    by (simp add: store_with_booking_fields lower_Acme)
  have used: "(case map_of (reset_monthly_booking_hours scenario_now
                              (organization_booking_hours store_with_booking)) (lower ''Acme'') of
                 None \<Rightarrow> 0 | Some h \<Rightarrow> h) = (0::real)"
    by (simp add: reset_monthly_booking_hours_def store_with_booking_fields)
  have 1: "fst (add_boooking scenario_now ''b2''
          (acme_request 7 999 ''u1@acme.com'' (datetime_of 2024 3 1 9 30 0)
             (datetime_of 2024 3 1 10 30 0)) store_with_booking) = HourlySlotsOnly"
    using add_boooking_validation_order
            [where data="acme_request 7 999 ''u1@acme.com'' (datetime_of 2024 3 1 9 30 0) (datetime_of 2024 3 1 10 30 0)"
               and st="datetime_of 2024 3 1 9 30 0" and en="datetime_of 2024 3 1 10 30 0"
               and now=scenario_now and uuid="''b2''"
               and s=store_with_booking and fnum=7,
             OF acme_request_fields(1-3)]
          half
    by simp
  have 2: "fst (add_boooking scenario_now ''b2''
          (acme_request 7 999 ''u1@acme.com'' (datetime_of 2024 3 1 9 0 0)
             (datetime_of 2024 3 1 10 0 0)) store_with_booking) = FloorNotAdded 7"
    using add_boooking_validation_order
            [where data="acme_request 7 999 ''u1@acme.com'' (datetime_of 2024 3 1 9 0 0) (datetime_of 2024 3 1 10 0 0)"
               and st="datetime_of 2024 3 1 9 0 0" and en="datetime_of 2024 3 1 10 0 0"
               and now=scenario_now and uuid="''b2''"
               and s=store_with_booking and fnum=7,
             OF acme_request_fields(1-3)]
          al f7
    by (simp add: acme_request_fields)
  have 3: "fst (add_boooking scenario_now ''b2''
          (acme_request 0 999 ''u1@acme.com'' (datetime_of 2024 3 1 9 0 0)
             (datetime_of 2024 3 1 10 0 0)) store_with_booking) = RoomNotAdded 999"
    using add_boooking_validation_order
            [where data="acme_request 0 999 ''u1@acme.com'' (datetime_of 2024 3 1 9 0 0) (datetime_of 2024 3 1 10 0 0)"
               and st="datetime_of 2024 3 1 9 0 0" and en="datetime_of 2024 3 1 10 0 0"
               and now=scenario_now and uuid="''b2''"
               and s=store_with_booking and fnum=0,
             OF acme_request_fields(1-3)]
          al f0
    by (simp add: acme_request_fields floor_zero_rooms)
  have 4: "fst (add_boooking scenario_now ''b2''
          (acme_request 0 101 ''u2@acme.com'' (datetime_of 2024 3 1 9 0 0)
             (datetime_of 2024 3 1 10 0 0)) store_with_booking) = NoSuchUser"
    using add_boooking_validation_order
            [where data="acme_request 0 101 ''u2@acme.com'' (datetime_of 2024 3 1 9 0 0) (datetime_of 2024 3 1 10 0 0)"
               and st="datetime_of 2024 3 1 9 0 0" and en="datetime_of 2024 3 1 10 0 0"
               and now=scenario_now and uuid="''b2''"
               and s=store_with_booking and fnum=0,
             OF acme_request_fields(1-3)]
          al f0 og
    by (simp add: acme_request_fields floor_zero_rooms acme_org_users acme_users_keys)
  have 5: "fst (add_boooking scenario_now ''b2''
          (acme_request 0 101 ''u1@acme.com'' (datetime_of 2024 3 1 9 0 0)
             (datetime_of 2024 3 1 10 0 0)) store_with_booking) = AlreadyBooked"
    using add_boooking_validation_order
            [where data="acme_request 0 101 ''u1@acme.com'' (datetime_of 2024 3 1 9 0 0) (datetime_of 2024 3 1 10 0 0)"
               and st="datetime_of 2024 3 1 9 0 0" and en="datetime_of 2024 3 1 10 0 0"
               and now=scenario_now and uuid="''b2''"
               and s=store_with_booking and fnum=0,
             OF acme_request_fields(1-3)]
          al f0 og used
    by (simp add: acme_request_fields floor_zero_rooms acme_org_users acme_users_keys
                  hour_length store_with_booking_fields first_booking_blocks)
  have 6: "fst (add_boooking scenario_now ''b2''
          (acme_request 0 101 ''u1@acme.com'' (datetime_of 2024 3 1 10 0 0)
             (datetime_of 2024 3 1 11 0 0)) store_with_booking)
       = Booked (define_booking ''b2'' 0 101 ''Acme'' [(''email'', ''u1@acme.com'')]
                   (datetime_of 2024 3 1 10 0 0) (datetime_of 2024 3 1 11 0 0))"
    using add_boooking_validation_order
            [where data="acme_request 0 101 ''u1@acme.com'' (datetime_of 2024 3 1 10 0 0) (datetime_of 2024 3 1 11 0 0)"
               and st="datetime_of 2024 3 1 10 0 0" and en="datetime_of 2024 3 1 11 0 0"
               and now=scenario_now and uuid="''b2''"
               and s=store_with_booking and fnum=0,
             OF acme_request_fields(1-3)]
          al f0 og used
    by (simp add: acme_request_fields floor_zero_rooms acme_org_users acme_users_keys
                  hour_length store_with_booking_fields first_booking_blocks)
  from 1 f7 2 3 4 5 6 show ?thesis by simp
qed

subsection \<open>Defects shown on concrete inputs\<close>

text \<open>
  C1. The scenario of the specification on the handlers: the floor, the room and the
  organization are added; the stored organization has the key \<open>limitusers\<close> and no
  key \<open>users\<close>, so adding the user raises \<open>KeyError('users')\<close>, which the handler
  answers through its generic branch, and so does the first booking. Nothing is stored.
\<close>

theorem scenario_stops_at_add_user:
  "step scenario_now AddFloor empty_store = (FloorAdded, store_with_floor)
   \<and> step scenario_now (AddRoom scenario_room_data) store_with_floor = (RoomAdded, store_with_room)
   \<and> step scenario_now (AddOrg scenario_org_data) store_with_room = (OrgAdded, store_with_org)
   \<and> map_of (all_orgs store_with_org) ''acme''
       = Some [(''org_name'', OStr ''acme''), (''org_email'', OStr ''a@x.com''),
               (''limitusers'', OUsers [])]
   \<and> step scenario_now (AddUser scenario_user_data) store_with_org
       = (Exception (KeyError ''users''), store_with_org)
   \<and> step scenario_now (AddBooking ''b1'' scenario_booking_data) store_with_org
       = (Exception (KeyError ''users''), store_with_org)
   \<and> all_bookings store_with_org = []"
  by code_simp

text \<open>
  C6. \<open>search_rooms\<close> asked for floor 0 also lists room 201 of floor 1: the floor
  filter has no effect.
\<close>

theorem search_rooms_ignores_floor_filter:
  "search_rooms (Some 0) None (Parsed (datetime_of 2024 3 1 9 0 0))
       (Parsed (datetime_of 2024 3 1 10 0 0)) store_two_floors
     = SearchData [(0, 101, Integer 20), (1, 201, Integer 10)]"
  by code_simp

text \<open>
  C10. A booking stored for \<open>Acme\<close> is listed for the name \<open>acme\<close> only: the
  handler passes the name of the path as it is, and only the stored name is lowered.
\<close>

theorem get_bookings_needs_lowercase_name:
  "get_bookings ''ACME'' store_acme_capital = BookingsData []
   \<and> get_bookings ''Acme'' store_acme_capital = BookingsData []
   \<and> get_bookings ''acme'' store_acme_capital
       = BookingsData (map snd (all_bookings store_acme_capital))"
  by code_simp

subsection \<open>Invariants\<close>






lemma list_all_update:
  "P v \<Longrightarrow> list_all P (map snd xs) \<Longrightarrow> list_all P (map snd (AList.update k v xs))"
  by (induction xs) auto

lemma list_all_map_of:
  "list_all P (map snd xs) \<Longrightarrow> map_of xs k = Some v \<Longrightarrow> P v"
  by (induction xs) (auto split: if_splits)










lemma org_without_users_define_organization:
  "org_without_users (define_organization n e)"
  by (simp add: org_without_users_def define_organization_def)

lemma add_room_frame:
  "all_bookings (snd (add_room data s)) = all_bookings s
   \<and> all_orgs (snd (add_room data s)) = all_orgs s
   \<and> organization_booking_hours (snd (add_room data s)) = organization_booking_hours s"
  by (simp add: add_room_def Let_def split: option.split)

lemma add_user_users_missing:
  "user_data.organization data = Some orgn \<Longrightarrow> map_of (all_orgs s) orgn = Some org
   \<Longrightarrow> map_of org ''users'' = None
   \<Longrightarrow> \<exists>e. add_user data s = (Exception e, s)"
  by (simp add: add_user_def split: option.split)

lemma add_user_no_users:
  assumes "list_all org_without_users (map snd (all_orgs s))"
  shows "snd (add_user data s) = s"
proof (cases "user_data.organization data")
  case None
  then show ?thesis by (simp add: add_user_def split: option.split)
next
  case (Some orgn)
  show ?thesis
  proof (cases "map_of (all_orgs s) orgn")
    case None
    with Some show ?thesis by (simp add: add_user_def split: option.split)
  next
    case (Some org)
    with assms have "map_of org ''users'' = None"
      using list_all_map_of [of org_without_users "all_orgs s" orgn org]
      by (simp add: org_without_users_def)
    with \<open>user_data.organization data = Some orgn\<close> Some show ?thesis
      using add_user_users_missing [of data orgn s org] by auto
  qed
qed

lemma get_org_no_users:
  assumes "list_all org_without_users (map snd (all_orgs s))"
  shows "snd (get_org n s) = s"
proof (cases "map_of (all_orgs s) (lower n)")
  case None
  then show ?thesis by (simp add: get_org_def)
next
  case (Some org)
  with assms have "map_of org ''users'' = None"
    using list_all_map_of [of org_without_users "all_orgs s" "lower n" org]
    by (simp add: org_without_users_def)
  with Some show ?thesis by (simp add: get_org_def)
qed

lemma add_boooking_no_users:
  assumes "list_all org_without_users (map snd (all_orgs s))"
  shows "(case add_boooking now uuid data s of
            (r, s1) \<Rightarrow>
              (r = HourlySlotsOnly \<or> (\<exists>n. r = FloorNotAdded n) \<or> (\<exists>n. r = RoomNotAdded n)
               \<or> (\<exists>e. r = Exception e))
              \<and> s1 = s\<lparr>organization_booking_hours :=
                          reset_monthly_booking_hours now (organization_booking_hours s)\<rparr>)"
proof (cases "booking_data.organization data")
  case None
  then show ?thesis
    by (simp add: add_boooking_def Let_def split: timearg.split)
next
  case (Some org0)
  show ?thesis
  proof (cases "map_of (all_orgs s) (lower org0)")
    case None
    with Some show ?thesis
      by (simp add: add_boooking_def Let_def split: timearg.split option.split)
  next
    case org: (Some org)
    with assms have "map_of org ''users'' = None"
      using list_all_map_of [of org_without_users "all_orgs s" "lower org0" org]
      by (simp add: org_without_users_def)
    with Some org show ?thesis
      by (simp add: add_boooking_def Let_def split: timearg.split option.split)
  qed
qed

lemma del_booking_empty:
  "all_bookings s = [] \<Longrightarrow> del_booking now bid s = (BookingNotFound, s)"
  by (simp add: del_booking_def)

lemma step_invariant:
  assumes "store_invariant s"
  shows "store_invariant (snd (step now rq s))"
proof (cases rq)
  case AddFloor
  with assms show ?thesis
    by (simp add: store_invariant_def add_floor_def Let_def)
next
  case (AddRoom data)
  with assms show ?thesis
    using add_room_frame [of data s]
    by (simp add: store_invariant_def)
next
  case GetRooms
  with assms show ?thesis
    by (simp add: store_invariant_def get_rooms_def case_prod_unfold)
next
  case (SearchRooms f c st en)
  with assms show ?thesis by simp
next
  case (AddOrg data)
  with assms show ?thesis
    by (simp add: store_invariant_def add_org_def list_all_update
                  org_without_users_define_organization split: option.split)
next
  case (GetOrg n)
  with assms show ?thesis
    by (simp add: store_invariant_def get_org_no_users)
next
  case (AddUser data)
  with assms show ?thesis
    by (simp add: store_invariant_def add_user_no_users)
next
  case (AddBooking uuid data)
  from assms have o: "list_all org_without_users (map snd (all_orgs s))"
    by (simp add: store_invariant_def)
  from add_boooking_no_users [OF o, of now uuid data]
  have "snd (add_boooking now uuid data s)
          = s\<lparr>organization_booking_hours :=
                reset_monthly_booking_hours now (organization_booking_hours s)\<rparr>"
    by (cases "add_boooking now uuid data s") simp
  with assms AddBooking show ?thesis
    by (simp add: store_invariant_def reset_monthly_booking_hours_def)
next
  case (GetBookings n)
  with assms show ?thesis by simp
next
  case (DelBooking bid)
  with assms show ?thesis
    by (simp add: store_invariant_def del_booking_empty)
qed

lemma reachable_invariant: "reachable s \<Longrightarrow> store_invariant s"
proof (induction rule: reachable.induct)
  case reachable_init
  show ?case by (simp add: store_invariant_def empty_store_def)
next
  case (reachable_step s now rq)
  then show ?case by (simp add: step_invariant)
qed

lemma reachable_int_reachable: "reachable_int s \<Longrightarrow> reachable s"
  by (induction rule: reachable_int.induct) (simp_all add: reachable_init reachable_step)

lemma reachable_examples:
  "reachable store_with_floor" "reachable store_with_room" "reachable store_with_org"
  unfolding store_with_floor_def store_with_room_def store_with_org_def
  by (intro reachable_step reachable_init)+



lemma store_with_room_fields:
  "all_floors store_with_room = [(0, floor_zero)]"
  "all_floors store_with_org = [(0, floor_zero)]"
  "all_orgs store_with_org = [(''acme'', define_organization ''acme'' ''a@x.com'')]"
  by code_simp+


lemma room_request_integer: "integer_capacity (AddRoom (room_request f r (Integer c)))"
  by (simp add: integer_capacity_def room_request_def)

subsection \<open>Floor capacity\<close>




subsection \<open>No users, no bookings\<close>

lemma add_boooking_user_check_raises:
  assumes "list_all org_without_users (map snd (all_orgs s))"
    and "booking_data.start_time data = Parsed st"
    and "booking_data.end_time data = Parsed en"
    and "booking_data.organization data = Some org0"
    and "minute st = 0 \<and> second st = 0 \<and> minute en = 0 \<and> second en = 0"
    and "booking_data.floor_number data = Some fnum"
    and "map_of (all_floors s) fnum = Some fl"
    and "booking_data.room_number data = Some rnum"
    and "rnum \<in> set (map fst (rooms fl))"
  shows "\<exists>e. fst (add_boooking now uuid data s) = Exception e"
proof (cases "map_of (all_orgs s) (lower org0)")
  case None
  with assms(2-9) show ?thesis
    by (simp add: add_boooking_def Let_def split: option.split)
next
  case (Some org)
  with assms(1) have "map_of org ''users'' = None"
    using list_all_map_of [of org_without_users "all_orgs s" "lower org0" org]
    by (simp add: org_without_users_def)
  with Some assms(2-9) show ?thesis
    by (simp add: add_boooking_def Let_def split: option.split)
qed

text \<open>
  C2, as amended. In every store reached from the empty one by requests: no stored
  organization has a key \<open>users\<close> (each has an empty dict under \<open>limitusers\<close>), and
  no booking and no tracker entry is stored. There, \<open>add_user\<close> never changes the
  store, and for a stored organization it answers through the generic exception branch;
  \<open>add_boooking\<close> never changes the store either, and its answer is the hourly-slots
  message, the floor message, the room message or the generic exception branch: the
  generic branch whenever the times are whole hours and the floor and the room exist.
\<close>

theorem reachable_store_has_no_users:
  assumes "reachable s"
  shows "(\<forall>org \<in> set (map snd (all_orgs s)).
            map_of org ''users'' = None \<and> map_of org ''limitusers'' = Some (OUsers []))
       \<and> all_bookings s = [] \<and> organization_booking_hours s = []
       \<and> (\<forall>data. snd (add_user data s) = s)
       \<and> (\<forall>data orgn. user_data.organization data = Some orgn
                       \<and> map_of (all_orgs s) orgn \<noteq> None
             \<longrightarrow> (\<exists>e. fst (add_user data s) = Exception e))
       \<and> (\<forall>now uuid data.
             snd (add_boooking now uuid data s) = s
             \<and> (fst (add_boooking now uuid data s) = HourlySlotsOnly
                \<or> (\<exists>n. fst (add_boooking now uuid data s) = FloorNotAdded n)
                \<or> (\<exists>n. fst (add_boooking now uuid data s) = RoomNotAdded n)
                \<or> (\<exists>e. fst (add_boooking now uuid data s) = Exception e)))
       \<and> (\<forall>now uuid data st en org0 fnum fl rnum.
             booking_data.start_time data = Parsed st
             \<and> booking_data.end_time data = Parsed en
             \<and> booking_data.organization data = Some org0
             \<and> minute st = 0 \<and> second st = 0 \<and> minute en = 0 \<and> second en = 0
             \<and> booking_data.floor_number data = Some fnum
             \<and> map_of (all_floors s) fnum = Some fl
             \<and> booking_data.room_number data = Some rnum
             \<and> rnum \<in> set (map fst (rooms fl))
             \<longrightarrow> (\<exists>e. fst (add_boooking now uuid data s) = Exception e))"
proof -
  from assms have inv: "store_invariant s" by (rule reachable_invariant)
  then have o: "list_all org_without_users (map snd (all_orgs s))"
    and b: "all_bookings s = []" and h: "organization_booking_hours s = []"
    by (simp_all add: store_invariant_def)
  have 1: "\<forall>org \<in> set (map snd (all_orgs s)).
            map_of org ''users'' = None \<and> map_of org ''limitusers'' = Some (OUsers [])"
    using o by (auto simp: list_all_iff org_without_users_def)
  have 2: "\<forall>data. snd (add_user data s) = s"
    using o by (simp add: add_user_no_users)
  have 3: "\<exists>e. fst (add_user data s) = Exception e"
    if "user_data.organization data = Some orgn" "map_of (all_orgs s) orgn \<noteq> None"
    for data :: user_data and orgn
  proof -
    from that(2) obtain org where m: "map_of (all_orgs s) orgn = Some org" by blast
    with o have "map_of org ''users'' = None"
      using list_all_map_of [of org_without_users "all_orgs s" orgn org]
      by (simp add: org_without_users_def)
    with that(1) m show ?thesis
      using add_user_users_missing [of data orgn s org] by auto
  qed
  have 4: "snd (add_boooking now uuid data s) = s
           \<and> (fst (add_boooking now uuid data s) = HourlySlotsOnly
               \<or> (\<exists>n. fst (add_boooking now uuid data s) = FloorNotAdded n)
               \<or> (\<exists>n. fst (add_boooking now uuid data s) = RoomNotAdded n)
               \<or> (\<exists>e. fst (add_boooking now uuid data s) = Exception e))"
    for now uuid data
  proof -
    have "s\<lparr>organization_booking_hours :=
              reset_monthly_booking_hours now (organization_booking_hours s)\<rparr> = s"
      using h by (simp add: reset_monthly_booking_hours_def)
    with add_boooking_no_users [OF o, of now uuid data] show ?thesis
      by (cases "add_boooking now uuid data s") auto
  qed
  have 5: "\<exists>e. fst (add_boooking now uuid data s) = Exception e"
    if "booking_data.start_time data = Parsed st
        \<and> booking_data.end_time data = Parsed en
        \<and> booking_data.organization data = Some org0
        \<and> minute st = 0 \<and> second st = 0 \<and> minute en = 0 \<and> second en = 0
        \<and> booking_data.floor_number data = Some fnum
        \<and> map_of (all_floors s) fnum = Some fl
        \<and> booking_data.room_number data = Some rnum
        \<and> rnum \<in> set (map fst (rooms fl))"
    for now uuid and data :: booking_data and st en org0 fnum fl rnum
    using that add_boooking_user_check_raises [OF o, of data st en org0 fnum fl rnum now uuid]
    by simp
  show ?thesis
  proof (intro conjI allI impI)
    show "\<forall>org \<in> set (map snd (all_orgs s)).
            map_of org ''users'' = None \<and> map_of org ''limitusers'' = Some (OUsers [])"
      by (rule 1)
    show "all_bookings s = []" by (rule b)
    show "organization_booking_hours s = []" by (rule h)
  next
    fix data
    show "snd (add_user data s) = s" using 2 by simp
  next
    fix data :: user_data and orgn
    assume "user_data.organization data = Some orgn \<and> map_of (all_orgs s) orgn \<noteq> None"
    then show "\<exists>e. fst (add_user data s) = Exception e" using 3 [of data orgn] by simp
  next
    fix now uuid data
    show "snd (add_boooking now uuid data s) = s" using 4 [of now uuid data] by simp
    show "fst (add_boooking now uuid data s) = HourlySlotsOnly
          \<or> (\<exists>n. fst (add_boooking now uuid data s) = FloorNotAdded n)
          \<or> (\<exists>n. fst (add_boooking now uuid data s) = RoomNotAdded n)
          \<or> (\<exists>e. fst (add_boooking now uuid data s) = Exception e)"
      using 4 [of now uuid data] by simp
  next
    fix now uuid and data :: booking_data and st en org0 fnum fl rnum
    assume "booking_data.start_time data = Parsed st
        \<and> booking_data.end_time data = Parsed en
        \<and> booking_data.organization data = Some org0
        \<and> minute st = 0 \<and> second st = 0 \<and> minute en = 0 \<and> second en = 0
        \<and> booking_data.floor_number data = Some fnum
        \<and> map_of (all_floors s) fnum = Some fl
        \<and> booking_data.room_number data = Some rnum
        \<and> rnum \<in> set (map fst (rooms fl))"
    then show "\<exists>e. fst (add_boooking now uuid data s) = Exception e"
      by (rule 5)
  qed
qed

text \<open>
  The store with the organization acme is reached by three requests. Its organization
  has no key \<open>users\<close>; the user and the booking of the scenario are both answered
  through the generic branch, and the store does not change.
\<close>

theorem reachable_store_has_no_users_witness:
  "reachable store_with_org
   \<and> map_of (all_orgs store_with_org) ''acme'' = Some (define_organization ''acme'' ''a@x.com'')
   \<and> map_of (define_organization ''acme'' ''a@x.com'') ''users'' = None
   \<and> all_bookings store_with_org = []
   \<and> add_user scenario_user_data store_with_org = (Exception (KeyError ''users''), store_with_org)
   \<and> add_boooking scenario_now ''b1'' scenario_booking_data store_with_org
       = (Exception (KeyError ''users''), store_with_org)"
proof -
  have r: "reachable store_with_org" by (rule reachable_examples)
  note t = reachable_store_has_no_users [OF r]
  have m: "map_of (all_orgs store_with_org) ''acme''
             = Some (define_organization ''acme'' ''a@x.com'')"
    by (simp add: store_with_room_fields)
  have mem: "define_organization ''acme'' ''a@x.com'' \<in> set (map snd (all_orgs store_with_org))"
    by (simp add: store_with_room_fields)
  from t [THEN conjunct1, rule_format, OF mem]
  have u: "map_of (define_organization ''acme'' ''a@x.com'') ''users'' = None"
    by simp
  from t [THEN conjunct2, THEN conjunct1]
  have b: "all_bookings store_with_org = []" .
  from t [THEN conjunct2, THEN conjunct2, THEN conjunct2, THEN conjunct1, rule_format,
          of scenario_user_data]
  have su: "snd (add_user scenario_user_data store_with_org) = store_with_org" .
  from t [THEN conjunct2, THEN conjunct2, THEN conjunct2, THEN conjunct2, THEN conjunct2,
          THEN conjunct1, rule_format, of scenario_now "''b1''" scenario_booking_data]
  have sb: "snd (add_boooking scenario_now ''b1'' scenario_booking_data store_with_org)
                     = store_with_org"
    by simp
  have fu: "fst (add_user scenario_user_data store_with_org) = Exception (KeyError ''users'')"
    by code_simp
  have fb: "fst (add_boooking scenario_now ''b1'' scenario_booking_data store_with_org)
              = Exception (KeyError ''users'')"
    by code_simp
  from r m u b su sb fu fb show ?thesis
    by (simp add: prod_eq_iff)
qed

text \<open>
  Against C2 as stated: in the reached store with the organization acme, a booking
  request of acme with half-hour times is answered with the hourly-slots message, and
  one for floor 7 with the floor message; neither goes through the generic exception
  branch.
\<close>

theorem create_booking_explicit_rejection_counterexample:
  "reachable store_with_org
   \<and> map_of (all_orgs store_with_org) ''acme'' = Some (define_organization ''acme'' ''a@x.com'')
   \<and> booking_data.organization scenario_second_booking_data = Some ''acme''
   \<and> add_boooking scenario_now ''b1'' scenario_second_booking_data store_with_org
       = (HourlySlotsOnly, store_with_org)
   \<and> lower ''Acme'' = ''acme''
   \<and> add_boooking scenario_now ''b1''
        (acme_request 7 999 ''u1@acme.com'' (datetime_of 2024 3 1 9 0 0)
           (datetime_of 2024 3 1 10 0 0)) store_with_org
       = (FloorNotAdded 7, store_with_org)"
proof -
  have r: "reachable store_with_org" by (rule reachable_examples)
  have m: "map_of (all_orgs store_with_org) ''acme''
             = Some (define_organization ''acme'' ''a@x.com'')"
    by (simp add: store_with_room_fields)
  have o: "booking_data.organization scenario_second_booking_data = Some ''acme''"
    by (simp add: scenario_second_booking_data_def scenario_booking_data_def)
  have a: "add_boooking scenario_now ''b1'' scenario_second_booking_data store_with_org
             = (HourlySlotsOnly, store_with_org)"
    by code_simp
  have b: "add_boooking scenario_now ''b1''
        (acme_request 7 999 ''u1@acme.com'' (datetime_of 2024 3 1 9 0 0)
           (datetime_of 2024 3 1 10 0 0)) store_with_org
       = (FloorNotAdded 7, store_with_org)"
    by code_simp
  from r m o a b lower_Acme show ?thesis by simp
qed

end
